theory Spec2Isabelle
  imports Main "HOL-Library.Word"
begin

text \<open>
  A model of the Spotify onboarding service of \<^verbatim>\<open>spotify-oauth-gcp\<close>: the adapter of
  \<^verbatim>\<open>app/secrets_manager.py\<close> over the managed secret store, and the startup check,
  the authorization URL, the OAuth callback and the two admin endpoints of
  \<^verbatim>\<open>app/main.py\<close>. Exceptions are values of a sum type, the store and the outbound
  calls are passed explicitly, and the theorems below settle the claims C1 to C10 of the
  specification.
\<close>

section \<open>Python values\<close>

text \<open>
  The handlers of \<^verbatim>\<open>app/main.py\<close> work on what \<^verbatim>\<open>Response.json()\<close> and
  \<^verbatim>\<open>json.loads\<close> return: \<^verbatim>\<open>None\<close>, booleans, integers, floats, strings, lists and
  dictionaries with string keys. A dictionary is an association list read from the left.
  Of a float only its truth value is ever used, so it is kept as mantissa and exponent
  (zero iff the mantissa is zero), infinity or NaN.
\<close>

datatype pyfloat = Finite int int | Infinite bool | NaN

datatype json =
    JNull
  | JBool bool
  | JInt int
  | JFloat pyfloat
  | JStr string
  | JArr "json list"
  | JObj "(string \<times> json) list"

text \<open>Python's truth value, as tested by \<^verbatim>\<open>not x\<close> and \<^verbatim>\<open>if x:\<close>.\<close>

fun truthy :: "json \<Rightarrow> bool" where
  "truthy JNull = False"
| "truthy (JBool b) = b"
| "truthy (JInt i) = (i \<noteq> 0)"
| "truthy (JFloat (Finite m e)) = (m \<noteq> 0)"
| "truthy (JFloat (Infinite s)) = True"
| "truthy (JFloat NaN) = True"
| "truthy (JStr s) = (s \<noteq> [])"
| "truthy (JArr xs) = (xs \<noteq> [])"
| "truthy (JObj d) = (d \<noteq> [])"

text \<open>\<^verbatim>\<open>d.get(k)\<close> and \<^verbatim>\<open>d.get(k, default)\<close> on a dictionary.\<close>

definition dict_get_default :: "(string \<times> json) list \<Rightarrow> string \<Rightarrow> json \<Rightarrow> json" where
  "dict_get_default d k dflt = (case map_of d k of None \<Rightarrow> dflt | Some v \<Rightarrow> v)"

definition dict_get :: "(string \<times> json) list \<Rightarrow> string \<Rightarrow> json" where
  "dict_get d k = dict_get_default d k JNull"

text \<open>The truth value of an optional string (a query parameter, an environment variable).\<close>

fun str_truthy :: "string option \<Rightarrow> bool" where
  "str_truthy None = False"
| "str_truthy (Some s) = (s \<noteq> [])"

type_synonym bytes = "8 word list"

text \<open>
  The functions of the Python library that the code calls are parameters of the model:
  \<^verbatim>\<open>json.dumps\<close>, \<^verbatim>\<open>json.loads\<close> (\<open>None\<close> when it raises), \<^verbatim>\<open>str.encode("utf-8")\<close>,
  \<^verbatim>\<open>bytes.decode("utf-8")\<close> (\<open>None\<close> when it raises), \<^verbatim>\<open>repr\<close> and
  \<^verbatim>\<open>urllib.parse.urlencode\<close>.
\<close>

record pylib =
  json_dumps :: "json \<Rightarrow> string"
  json_loads :: "string \<Rightarrow> json option"
  encode_utf8 :: "string \<Rightarrow> bytes"
  decode_utf8 :: "bytes \<Rightarrow> string option"
  py_repr :: "json \<Rightarrow> string"
  urlencode :: "(string \<times> string) list \<Rightarrow> string"

text \<open>
  What an f-string puts in place of \<^verbatim>\<open>{v}\<close>: \<^verbatim>\<open>str(v)\<close>, which is \<open>v\<close> itself for a
  string and \<^verbatim>\<open>repr(v)\<close> for every other value above.
\<close>

fun py_str :: "pylib \<Rightarrow> json \<Rightarrow> string" where
  "py_str lib (JStr s) = s"
| "py_str lib v = py_repr lib v"

text \<open>
  \<^verbatim>\<open>s.split(c)\<close> for a separator of one character (never the empty list), and
  \<^verbatim>\<open>s.startswith(p)\<close>.
\<close>

fun split_chr :: "char \<Rightarrow> string \<Rightarrow> string list" where
  "split_chr c [] = [[]]"
| "split_chr c (x # xs) =
     (if x = c then [] # split_chr c xs
      else (case split_chr c xs of [] \<Rightarrow> [[x]] | y # ys \<Rightarrow> (x # y) # ys))"

definition startswith :: "string \<Rightarrow> string \<Rightarrow> bool" where
  "startswith s p = (take (length p) s = p)"

section \<open>The secret store\<close>

text \<open>
  The managed secret store is an external service; the code reaches it through
  \<^verbatim>\<open>secretmanager.SecretManagerServiceClient\<close>. The model keeps, for one project, the
  secrets in creation order, each with its versions (oldest first). A secret id is
  accepted at creation when it has 1 to 255 characters among letters, digits, \<open>-\<close> and
  \<open>_\<close>. Every call of the client consumes one entry of a schedule that says what the
  outside world does to this call: nothing, a failure of the call (network, permission),
  or a request of another client served just before it.
\<close>

datatype sm_error =
  NotFound | AlreadyExists | InvalidArgument | PermissionDenied | Unavailable | DeadlineExceeded

datatype sm_request =
    GetSecret string
  | CreateSecret string string
  | AddSecretVersion string bytes
  | AccessSecretVersion string
  | ListSecrets string

datatype sm_response =
    RSecret string
  | RVersion string
  | RPayload bytes
  | RSecrets "string list"

datatype sm_event = Served | Fails sm_error | Raced sm_request

record store =
  project :: string
  secrets :: "(string \<times> bytes list) list"
  schedule :: "sm_event list"
  requests :: "sm_request list"

definition valid_id :: "string \<Rightarrow> bool" where
  "valid_id i = (i \<noteq> [] \<and> length i \<le> 255 \<and>
     list_all (\<lambda>c. c \<in> set ''abcdefghijklmnopqrstuvwxyzABCDEFGHIJKLMNOPQRSTUVWXYZ0123456789-_'') i)"

definition project_path :: "string \<Rightarrow> string" where
  "project_path p = ''projects/'' @ p"

definition secret_path :: "string \<Rightarrow> string \<Rightarrow> string" where
  "secret_path p i = project_path p @ ''/secrets/'' @ i"

text \<open>The secret id that a resource name denotes in project \<open>p\<close>, if it exists.\<close>

definition find_secret :: "string \<Rightarrow> (string \<times> bytes list) list \<Rightarrow> string \<Rightarrow> string option" where
  "find_secret p ss name = map_option fst (find (\<lambda>(i, vs). secret_path p i = name) ss)"

definition versions_of :: "(string \<times> bytes list) list \<Rightarrow> string \<Rightarrow> bytes list" where
  "versions_of ss i = (case map_of ss i of None \<Rightarrow> [] | Some vs \<Rightarrow> vs)"

text \<open>The service itself: one request against the secrets of project \<open>p\<close>.\<close>

fun serve :: "string \<Rightarrow> sm_request \<Rightarrow> (string \<times> bytes list) list \<Rightarrow>
    (sm_error + sm_response) \<times> (string \<times> bytes list) list" where
  "serve p (GetSecret name) ss =
     (case find_secret p ss name of
        None \<Rightarrow> (Inl NotFound, ss)
      | Some i \<Rightarrow> (Inr (RSecret name), ss))"
| "serve p (CreateSecret parent i) ss =
     (if parent \<noteq> project_path p then (Inl PermissionDenied, ss)
      else if \<not> valid_id i then (Inl InvalidArgument, ss)
      else if i \<in> set (map fst ss) then (Inl AlreadyExists, ss)
      else (Inr (RSecret (secret_path p i)), ss @ [(i, [])]))"
| "serve p (AddSecretVersion name data) ss =
     (case find_secret p ss name of
        None \<Rightarrow> (Inl NotFound, ss)
      | Some i \<Rightarrow>
          (Inr (RVersion name),
           map (\<lambda>(j, vs). if j = i then (j, vs @ [data]) else (j, vs)) ss))"
| "serve p (AccessSecretVersion name) ss =
     (case find (\<lambda>(i, vs). secret_path p i @ ''/versions/latest'' = name) ss of
        None \<Rightarrow> (Inl NotFound, ss)
      | Some (i, vs) \<Rightarrow> (if vs = [] then (Inl NotFound, ss) else (Inr (RPayload (last vs)), ss)))"
| "serve p (ListSecrets parent) ss =
     (if parent \<noteq> project_path p then (Inl PermissionDenied, ss)
      else (Inr (RSecrets (map (\<lambda>(i, vs). secret_path p i) ss)), ss))"

text \<open>
  One call of the client: it is recorded, takes its entry of the schedule (an exhausted
  schedule serves every call), and is served unless the entry makes it fail.
\<close>

definition sm_call :: "sm_request \<Rightarrow> store \<Rightarrow> (sm_error + sm_response) \<times> store" where
  "sm_call req st =
     (let st1 = st\<lparr>schedule := tl (schedule st), requests := requests st @ [req]\<rparr> in
      case schedule st of
        [] \<Rightarrow> (case serve (project st) req (secrets st) of (r, ss) \<Rightarrow> (r, st1\<lparr>secrets := ss\<rparr>))
      | Served # _ \<Rightarrow>
          (case serve (project st) req (secrets st) of (r, ss) \<Rightarrow> (r, st1\<lparr>secrets := ss\<rparr>))
      | Fails e # _ \<Rightarrow> (Inl e, st1)
      | Raced other # _ \<Rightarrow>
          (case serve (project st) req (snd (serve (project st) other (secrets st))) of
             (r, ss) \<Rightarrow> (r, st1\<lparr>secrets := ss\<rparr>)))"

section \<open>The adapter: \<^verbatim>\<open>app/secrets_manager.py\<close>\<close>

datatype exn =
    Exception string
  | ApiError sm_error
  | AttributeError
  | TypeError
  | UnicodeDecodeError
  | JSONDecodeError

record secret_manager_client =
  project_id :: string

text \<open>
  \<^verbatim>\<open>create_or_update_secret\<close>: the lookup in the \<^verbatim>\<open>try\<close>, the creation in its
  \<^verbatim>\<open>except Exception\<close> handler (nothing catches what the creation raises), then the new
  version.
\<close>

definition create_or_update_secret ::
    "pylib \<Rightarrow> secret_manager_client \<Rightarrow> string \<Rightarrow> string \<Rightarrow> store \<Rightarrow> (exn + unit) \<times> store" where
  "create_or_update_secret lib self secret_id payload st =
     (let parent = ''projects/'' @ project_id self;
          add_secret_version = (\<lambda>s.
            case sm_call (AddSecretVersion (parent @ ''/secrets/'' @ secret_id)
                            (encode_utf8 lib payload)) s of
              (Inl e, s') \<Rightarrow> (Inl (ApiError e), s')
            | (Inr r, s') \<Rightarrow> (Inr (), s'))
      in case sm_call (GetSecret (parent @ ''/secrets/'' @ secret_id)) st of
           (Inr r, st1) \<Rightarrow> add_secret_version st1
         | (Inl e, st1) \<Rightarrow>
             (case sm_call (CreateSecret parent secret_id) st1 of
                (Inl e', st2) \<Rightarrow> (Inl (ApiError e'), st2)
              | (Inr r, st2) \<Rightarrow> add_secret_version st2))"

text \<open>
  \<^verbatim>\<open>get_secret_payload\<close>: first the body of its \<^verbatim>\<open>try\<close> (access, decode, parse), which
  can raise; then the function, whose handler turns every exception into \<^verbatim>\<open>None\<close>.
\<close>

definition access_and_parse ::
    "pylib \<Rightarrow> secret_manager_client \<Rightarrow> string \<Rightarrow> store \<Rightarrow> (exn + json) \<times> store" where
  "access_and_parse lib self secret_id st =
     (let name = ''projects/'' @ project_id self @ ''/secrets/'' @ secret_id @ ''/versions/latest''
      in case sm_call (AccessSecretVersion name) st of
           (Inl e, st1) \<Rightarrow> (Inl (ApiError e), st1)
         | (Inr (RPayload data), st1) \<Rightarrow>
             (case decode_utf8 lib data of
                None \<Rightarrow> (Inl UnicodeDecodeError, st1)
              | Some payload \<Rightarrow>
                  (case json_loads lib payload of
                     None \<Rightarrow> (Inl JSONDecodeError, st1)
                   | Some v \<Rightarrow> (Inr v, st1)))
         | (Inr r, st1) \<Rightarrow> (Inl AttributeError, st1))"

definition get_secret_payload ::
    "pylib \<Rightarrow> secret_manager_client \<Rightarrow> string \<Rightarrow> store \<Rightarrow> (exn + json) \<times> store" where
  "get_secret_payload lib self secret_id st =
     (case access_and_parse lib self secret_id st of
        (Inl e, st1) \<Rightarrow> (Inr JNull, st1)
      | (Inr v, st1) \<Rightarrow> (Inr v, st1))"

definition list_spotify_secrets ::
    "secret_manager_client \<Rightarrow> string \<Rightarrow> store \<Rightarrow> (exn + string list) \<times> store" where
  "list_spotify_secrets self prefix st =
     (let parent = ''projects/'' @ project_id self
      in case sm_call (ListSecrets parent) st of
           (Inl e, st1) \<Rightarrow> (Inl (ApiError e), st1)
         | (Inr (RSecrets names), st1) \<Rightarrow>
             (let all_secrets = map (\<lambda>n. last (split_chr CHR ''/'' n)) names
              in (Inr (filter (\<lambda>n. startswith n prefix) all_secrets), st1))
         | (Inr r, st1) \<Rightarrow> (Inl TypeError, st1))"

section \<open>Configuration and startup: \<^verbatim>\<open>app/main.py\<close>, lines 19 to 29\<close>

text \<open>
  The environment is a map from names to values. The four values that the startup check
  tests are strings afterwards; the two it does not test stay optional.
\<close>

record config =
  SPOTIFY_CLIENT_ID :: string
  SPOTIFY_CLIENT_SECRET :: string
  REDIRECT_URI :: string
  SCOPES :: string
  APP_URL :: "string option"
  ADMIN_API_KEY :: "string option"
  GCP_PROJECT :: string
  SPOTIFY_SECRET_PREFIX :: string

definition getenv_default :: "(string \<rightharpoonup> string) \<Rightarrow> string \<Rightarrow> string \<Rightarrow> string" where
  "getenv_default env k dflt = (case env k of None \<Rightarrow> dflt | Some v \<Rightarrow> v)"

definition default_scopes :: string where
  "default_scopes = ''user-read-private user-read-email user-read-recently-played user-top-read user-library-read playlist-read-private playlist-read-collaborative user-follow-read''"

definition startup :: "(string \<rightharpoonup> string) \<Rightarrow> exn + config" where
  "startup env =
     (let client_id = env ''SPOTIFY_CLIENT_ID'';
          client_secret = env ''SPOTIFY_CLIENT_SECRET'';
          redirect_uri = env ''SPOTIFY_REDIRECT_URI'';
          gcp_project = env ''GCP_PROJECT''
      in if \<not> (str_truthy client_id \<and> str_truthy client_secret \<and>
                 str_truthy gcp_project \<and> str_truthy redirect_uri)
         then Inl (Exception ''Missing required env variables.'')
         else (case (client_id, client_secret, redirect_uri, gcp_project) of
                 (Some cid, Some csec, Some ruri, Some gcp) \<Rightarrow>
                   Inr \<lparr>SPOTIFY_CLIENT_ID = cid, SPOTIFY_CLIENT_SECRET = csec,
                        REDIRECT_URI = ruri,
                        SCOPES = getenv_default env ''SCOPES'' default_scopes,
                        APP_URL = env ''APP_URL'',
                        ADMIN_API_KEY = env ''ADMIN_API_KEY'',
                        GCP_PROJECT = gcp,
                        SPOTIFY_SECRET_PREFIX =
                          getenv_default env ''SPOTIFY_SECRET_PREFIX'' ''spotify1-refresh-''\<rparr>
               | _ \<Rightarrow> Inl (Exception ''Missing required env variables.'')))"

definition sm :: "config \<Rightarrow> secret_manager_client" where
  "sm cfg = \<lparr>project_id = GCP_PROJECT cfg\<rparr>"

definition SPOTIFY_AUTHORIZE_URL :: string where
  "SPOTIFY_AUTHORIZE_URL = ''https://accounts.spotify.com/authorize''"

definition SPOTIFY_TOKEN_URL :: string where
  "SPOTIFY_TOKEN_URL = ''https://accounts.spotify.com/api/token''"

definition SPOTIFY_ME_URL :: string where
  "SPOTIFY_ME_URL = ''https://api.spotify.com/v1/me''"

section \<open>The outside world of a request\<close>

text \<open>
  What a request meets outside the process: the answers of the provider to a POST and to
  a GET (a network error or a timeout, or a status code with a body, \<open>None\<close> when the body
  is not JSON and \<^verbatim>\<open>Response.json()\<close> raises), the clock, and the value \<^verbatim>\<open>uuid.uuid4()\<close>
  draws. The handlers return, beside their response and the store, the outbound HTTP
  calls they made, in order.
\<close>

datatype http_result = NetworkError | HttpResponse int "json option"

datatype outbound =
    Post string "(string \<times> string) list" "string \<times> string"
  | Get string "(string \<times> string) list"

record world =
  http_post :: "string \<Rightarrow> (string \<times> string) list \<Rightarrow> string \<times> string \<Rightarrow> http_result"
  http_get :: "string \<Rightarrow> (string \<times> string) list \<Rightarrow> http_result"
  utcnow_isoformat :: string
  uuid4 :: "128 word"

datatype response =
    HTTPException int string
  | TemplateResponse string "(string \<times> json) list"
  | JSONResponse json
  | InternalServerError exn

definition error_page :: "string \<Rightarrow> response" where
  "error_page message = TemplateResponse ''error.html'' [(''message'', JStr message)]"

section \<open>The authorization URL: \<^verbatim>\<open>build_auth_url\<close>\<close>

text \<open>
  \<^verbatim>\<open>uuid.uuid4().hex\<close>, that is \<^verbatim>\<open>'%032x' % self.int\<close>: the 128-bit integer as 32
  lower-case hexadecimal digits, the most significant first.
\<close>

definition hex_digit :: "nat \<Rightarrow> char" where
  "hex_digit n = ''0123456789abcdef'' ! (n mod 16)"

definition uuid_hex :: "128 word \<Rightarrow> string" where
  "uuid_hex u = map (\<lambda>i. hex_digit (unat u div 16 ^ (31 - i))) [0..<32]"

definition auth_params :: "config \<Rightarrow> world \<Rightarrow> string option \<Rightarrow> (string \<times> string) list" where
  "auth_params cfg w state =
     [(''client_id'', SPOTIFY_CLIENT_ID cfg),
      (''response_type'', ''code''),
      (''redirect_uri'', REDIRECT_URI cfg),
      (''scope'', SCOPES cfg),
      (''show_dialog'', ''true''),
      (''response_mode'', ''query''),
      (''prompt'', ''consent''),
      (''state'', (case state of
                     None \<Rightarrow> ''st-'' @ take 8 (uuid_hex (uuid4 w))
                   | Some s \<Rightarrow> if s \<noteq> [] then s else ''st-'' @ take 8 (uuid_hex (uuid4 w))))]"

definition build_auth_url :: "pylib \<Rightarrow> config \<Rightarrow> world \<Rightarrow> string option \<Rightarrow> string" where
  "build_auth_url lib cfg w state =
     SPOTIFY_AUTHORIZE_URL @ ''?'' @ urlencode lib (auth_params cfg w state)"

section \<open>The callback handler\<close>

text \<open>
  \<^verbatim>\<open>callback\<close>, lines 77 to 155. The logging of lines 82 to 86 has no effect on the
  result and is left out. An exception that no handler of the function catches
  (\<^verbatim>\<open>Response.json()\<close> on a body that is not JSON, \<^verbatim>\<open>.get\<close> on a body that is not an
  object) leaves the function and is \<open>InternalServerError\<close>.
\<close>

definition callback ::
    "pylib \<Rightarrow> config \<Rightarrow> world \<Rightarrow> string option \<Rightarrow> string option \<Rightarrow> store \<Rightarrow>
     response \<times> store \<times> outbound list" where
  "callback lib cfg w code state st =
     (case code of
        None \<Rightarrow> (HTTPException 400 ''Missing code parameter'', st, [])
      | Some c \<Rightarrow>
        if c = [] then (HTTPException 400 ''Missing code parameter'', st, [])
        else
         (let auth = (SPOTIFY_CLIENT_ID cfg, SPOTIFY_CLIENT_SECRET cfg);
              data = [(''grant_type'', ''authorization_code''), (''code'', c),
                      (''redirect_uri'', REDIRECT_URI cfg)];
              t1 = [Post SPOTIFY_TOKEN_URL data auth]
          in case http_post w SPOTIFY_TOKEN_URL data auth of
               NetworkError \<Rightarrow> (error_page ''Spotify token exchange failed.'', st, t1)
             | HttpResponse token_status token_body \<Rightarrow>
               if token_status \<noteq> 200 then (error_page ''Failed to exchange code.'', st, t1)
               else
                (case token_body of
                   None \<Rightarrow> (InternalServerError JSONDecodeError, st, t1)
                 | Some (JObj token_json) \<Rightarrow>
                    (let access_token = dict_get token_json ''access_token'';
                         refresh_token = dict_get token_json ''refresh_token'';
                         scope = dict_get token_json ''scope''
                     in if \<not> truthy access_token \<or> \<not> truthy refresh_token
                        then (error_page ''Missing tokens.'', st, t1)
                        else
                         (let headers = [(''Authorization'', ''Bearer '' @ py_str lib access_token)];
                              t2 = t1 @ [Get SPOTIFY_ME_URL headers]
                          in case http_get w SPOTIFY_ME_URL headers of
                               NetworkError \<Rightarrow>
                                 (error_page ''Failed to fetch Spotify profile.'', st, t2)
                             | HttpResponse me_status me_body \<Rightarrow>
                               if me_status \<noteq> 200
                               then (error_page ''Spotify profile error.'', st, t2)
                               else
                                (case me_body of
                                   None \<Rightarrow> (InternalServerError JSONDecodeError, st, t2)
                                 | Some (JObj me) \<Rightarrow>
                                    (let spotify_user_id = dict_get me ''id'';
                                         display_name =
                                           dict_get_default me ''display_name'' (JStr [])
                                     in if \<not> truthy spotify_user_id
                                        then (error_page ''Profile missing ID.'', st, t2)
                                        else
                                         (let secret_name =
                                                SPOTIFY_SECRET_PREFIX cfg @ py_str lib spotify_user_id;
                                              payload = json_dumps lib (JObj
                                                [(''spotify_user_id'', spotify_user_id),
                                                 (''display_name'', display_name),
                                                 (''refresh_token'', refresh_token),
                                                 (''scope'', scope),
                                                 (''created_at'', JStr (utcnow_isoformat w))])
                                          in case create_or_update_secret lib (sm cfg)
                                                    secret_name payload st of
                                               (Inl e, st') \<Rightarrow>
                                                 (error_page ''Failed to store credentials.'', st', t2)
                                             | (Inr u, st') \<Rightarrow>
                                                 (TemplateResponse ''success.html''
                                                    [(''display_name'', display_name),
                                                     (''spotify_user_id'', spotify_user_id)],
                                                  st', t2)))
                                 | Some other \<Rightarrow> (InternalServerError AttributeError, st, t2))))
                 | Some other \<Rightarrow> (InternalServerError AttributeError, st, t1))))"

section \<open>The admin endpoints\<close>

text \<open>The loop of \<^verbatim>\<open>admin_users\<close>, lines 165 to 172, with the list \<open>users\<close> it appends to.\<close>

fun collect_users ::
    "pylib \<Rightarrow> secret_manager_client \<Rightarrow> string list \<Rightarrow> json list \<Rightarrow> store \<Rightarrow>
     (exn + json list) \<times> store" where
  "collect_users lib self [] users st = (Inr users, st)"
| "collect_users lib self (secret_name # rest) users st =
     (case get_secret_payload lib self secret_name st of
        (Inl e, st1) \<Rightarrow> (Inl e, st1)
      | (Inr payload, st1) \<Rightarrow>
          if truthy payload then
            (case payload of
               JObj d \<Rightarrow>
                 collect_users lib self rest
                   (users @ [JObj [(''spotify_user_id'', dict_get d ''spotify_user_id''),
                                   (''display_name'', dict_get d ''display_name'')]]) st1
             | _ \<Rightarrow> (Inl AttributeError, st1))
          else collect_users lib self rest users st1)"

definition admin_users :: "pylib \<Rightarrow> config \<Rightarrow> string option \<Rightarrow> store \<Rightarrow> response \<times> store" where
  "admin_users lib cfg x_api_key st =
     (if x_api_key \<noteq> ADMIN_API_KEY cfg then (HTTPException 401 ''Unauthorized'', st)
      else
        case list_spotify_secrets (sm cfg) (SPOTIFY_SECRET_PREFIX cfg) st of
          (Inl e, st1) \<Rightarrow> (InternalServerError e, st1)
        | (Inr names, st1) \<Rightarrow>
            (case collect_users lib (sm cfg) names [] st1 of
               (Inl e, st2) \<Rightarrow> (InternalServerError e, st2)
             | (Inr users, st2) \<Rightarrow> (JSONResponse (JArr users), st2)))"

definition get_token ::
    "pylib \<Rightarrow> config \<Rightarrow> string \<Rightarrow> string option \<Rightarrow> store \<Rightarrow> response \<times> store" where
  "get_token lib cfg spotify_user_id x_api_key st =
     (if x_api_key \<noteq> ADMIN_API_KEY cfg then (HTTPException 401 ''Unauthorized'', st)
      else
        case get_secret_payload lib (sm cfg) (SPOTIFY_SECRET_PREFIX cfg @ spotify_user_id) st of
          (Inl e, st1) \<Rightarrow> (InternalServerError e, st1)
        | (Inr payload, st1) \<Rightarrow>
            if \<not> truthy payload then (HTTPException 404 ''User not found'', st1)
            else (JSONResponse payload, st1))"

section \<open>Notions of the specification\<close>

text \<open>
  A token response carries both tokens, and a profile response carries an identifier,
  when the body is a JSON object in which they are present and not empty.
\<close>

definition has_tokens :: "json option \<Rightarrow> bool" where
  "has_tokens body =
     (case body of
        Some (JObj d) \<Rightarrow> truthy (dict_get d ''access_token'') \<and> truthy (dict_get d ''refresh_token'')
      | _ \<Rightarrow> False)"

definition has_id :: "json option \<Rightarrow> bool" where
  "has_id body = (case body of Some (JObj d) \<Rightarrow> truthy (dict_get d ''id'') | _ \<Rightarrow> False)"

definition is_object :: "json option \<Rightarrow> bool" where
  "is_object body = (case body of Some (JObj d) \<Rightarrow> True | _ \<Rightarrow> False)"

text \<open>
  Names for what the callback handler sends and builds: the form data and the client
  credentials of the token request, the header of the profile request, the record it
  stores and the page it answers with.
\<close>

abbreviation token_data :: "config \<Rightarrow> string \<Rightarrow> (string \<times> string) list" where
  "token_data cfg c \<equiv>
     [(''grant_type'', ''authorization_code''), (''code'', c), (''redirect_uri'', REDIRECT_URI cfg)]"

abbreviation client_auth :: "config \<Rightarrow> string \<times> string" where
  "client_auth cfg \<equiv> (SPOTIFY_CLIENT_ID cfg, SPOTIFY_CLIENT_SECRET cfg)"

abbreviation bearer_headers :: "pylib \<Rightarrow> json \<Rightarrow> (string \<times> string) list" where
  "bearer_headers lib access_token \<equiv> [(''Authorization'', ''Bearer '' @ py_str lib access_token)]"

abbreviation credential_record ::
    "world \<Rightarrow> (string \<times> json) list \<Rightarrow> (string \<times> json) list \<Rightarrow> json" where
  "credential_record w token_json me \<equiv> JObj
     [(''spotify_user_id'', dict_get me ''id''),
      (''display_name'', dict_get_default me ''display_name'' (JStr [])),
      (''refresh_token'', dict_get token_json ''refresh_token''),
      (''scope'', dict_get token_json ''scope''),
      (''created_at'', JStr (utcnow_isoformat w))]"

abbreviation user_secret :: "pylib \<Rightarrow> config \<Rightarrow> json \<Rightarrow> string" where
  "user_secret lib cfg spotify_user_id \<equiv> SPOTIFY_SECRET_PREFIX cfg @ py_str lib spotify_user_id"

abbreviation success_page :: "json \<Rightarrow> json \<Rightarrow> response" where
  "success_page display_name spotify_user_id \<equiv>
     TemplateResponse ''success.html''
       [(''display_name'', display_name), (''spotify_user_id'', spotify_user_id)]"

text \<open>
  \<open>get_latest\<close> as the specification words it: absence when the secret does not exist,
  has no versions, or its latest payload does not decode or parse; the parsed payload of
  the latest version otherwise.
\<close>

definition spec_get_latest :: "pylib \<Rightarrow> (string \<times> bytes list) list \<Rightarrow> string \<Rightarrow> json" where
  "spec_get_latest lib ss i =
     (case map_of ss i of
        None \<Rightarrow> JNull
      | Some vs \<Rightarrow>
          if vs = [] then JNull
          else (case decode_utf8 lib (last vs) of
                  None \<Rightarrow> JNull
                | Some text \<Rightarrow> (case json_loads lib text of None \<Rightarrow> JNull | Some v \<Rightarrow> v)))"

text \<open>The secrets a call meets: those left by the request that raced it, if any.\<close>

definition secrets_seen :: "store \<Rightarrow> (string \<times> bytes list) list" where
  "secrets_seen st =
     (case schedule st of
        Raced other # rest \<Rightarrow> snd (serve (project st) other (secrets st))
      | _ \<Rightarrow> secrets st)"

text \<open>
  The store keeps its secret ids distinct and well formed. A schedule is quiet when no
  other client writes between the calls.
\<close>

definition wf_secrets :: "(string \<times> bytes list) list \<Rightarrow> bool" where
  "wf_secrets ss = (distinct (map fst ss) \<and> list_all valid_id (map fst ss))"

fun is_race :: "sm_event \<Rightarrow> bool" where
  "is_race (Raced other) = True"
| "is_race e = False"

definition quiet :: "store \<Rightarrow> bool" where
  "quiet st = list_all (\<lambda>e. \<not> is_race e) (schedule st)"

section \<open>Concrete inputs\<close>

text \<open>
  The end-to-end scenario of the specification: code \<open>abc123\<close>, tokens \<open>AT1\<close> and
  \<open>RT1\<close>, user \<open>u789\<close> named Jane. The library is given on ASCII text:
  \<^verbatim>\<open>quote_plus\<close> and \<^verbatim>\<open>urlencode\<close> as Python computes them there, the serialisation
  and parsing of JSON on the one record of the scenario.
\<close>

definition example_record :: json where
  "example_record = JObj
     [(''spotify_user_id'', JStr ''u789''),
      (''display_name'', JStr ''Jane''),
      (''refresh_token'', JStr ''RT1''),
      (''scope'', JStr ''user-read-email''),
      (''created_at'', JStr ''2024-05-01T12:00:00'')]"

definition example_text :: string where
  "example_text = ''{\"spotify_user_id\": \"u789\", \"display_name\": \"Jane\", \"refresh_token\": \"RT1\", \"scope\": \"user-read-email\", \"created_at\": \"2024-05-01T12:00:00\"}''"

definition ascii_encode :: "string \<Rightarrow> bytes" where
  "ascii_encode s = map (\<lambda>c. of_nat (of_char c)) s"

definition ascii_decode :: "bytes \<Rightarrow> string option" where
  "ascii_decode bs =
     (if list_all (\<lambda>b. unat b < 128) bs then Some (map (\<lambda>b. char_of (unat b)) bs) else None)"

definition quote_plus :: "string \<Rightarrow> string" where
  "quote_plus s = concat (map (\<lambda>c.
     if c \<in> set ''abcdefghijklmnopqrstuvwxyzABCDEFGHIJKLMNOPQRSTUVWXYZ0123456789_.-~'' then [c]
     else if c = CHR '' '' then ''+''
     else [CHR ''%'', ''0123456789ABCDEF'' ! (of_char c div 16),
           ''0123456789ABCDEF'' ! (of_char c mod 16)]) s)"

fun join_amp :: "string list \<Rightarrow> string" where
  "join_amp [] = []"
| "join_amp [x] = x"
| "join_amp (x # y # ys) = x @ ''&'' @ join_amp (y # ys)"

definition example_lib :: pylib where
  "example_lib =
     \<lparr>json_dumps = (\<lambda>v. if v = example_record then example_text else []),
      json_loads = (\<lambda>s. if s = example_text then Some example_record else None),
      encode_utf8 = ascii_encode,
      decode_utf8 = ascii_decode,
      py_repr = (\<lambda>v. if v = JNull then ''None'' else []),
      urlencode = (\<lambda>ps. join_amp (map (\<lambda>(k, v). quote_plus k @ ''='' @ quote_plus v) ps))\<rparr>"

definition example_env :: "string \<rightharpoonup> string" where
  "example_env = map_of
     [(''SPOTIFY_CLIENT_ID'', ''client-1''),
      (''SPOTIFY_CLIENT_SECRET'', ''s3cret''),
      (''SPOTIFY_REDIRECT_URI'', ''https://app.example/auth/callback''),
      (''APP_URL'', ''https://app.example''),
      (''ADMIN_API_KEY'', ''k3y''),
      (''GCP_PROJECT'', ''proj'')]"

definition example_cfg :: config where
  "example_cfg =
     \<lparr>SPOTIFY_CLIENT_ID = ''client-1'', SPOTIFY_CLIENT_SECRET = ''s3cret'',
      REDIRECT_URI = ''https://app.example/auth/callback'',
      SCOPES = default_scopes,
      APP_URL = Some ''https://app.example'',
      ADMIN_API_KEY = Some ''k3y'',
      GCP_PROJECT = ''proj'',
      SPOTIFY_SECRET_PREFIX = ''spotify1-refresh-''\<rparr>"

definition example_tokens :: json where
  "example_tokens = JObj
     [(''access_token'', JStr ''AT1''), (''refresh_token'', JStr ''RT1''),
      (''scope'', JStr ''user-read-email'')]"

definition example_profile :: json where
  "example_profile = JObj [(''id'', JStr ''u789''), (''display_name'', JStr ''Jane'')]"

definition example_world :: world where
  "example_world =
     \<lparr>http_post = (\<lambda>url data auth.
        if url = SPOTIFY_TOKEN_URL \<and> map_of data ''code'' = Some ''abc123''
        then HttpResponse 200 (Some example_tokens)
        else HttpResponse 400 None),
      http_get = (\<lambda>url headers.
        if url = SPOTIFY_ME_URL \<and> headers = [(''Authorization'', ''Bearer AT1'')]
        then HttpResponse 200 (Some example_profile)
        else HttpResponse 401 None),
      utcnow_isoformat = ''2024-05-01T12:00:00'',
      uuid4 = 12345678901234567890123456789012345678\<rparr>"

definition empty_store :: store where
  "empty_store = \<lparr>project = ''proj'', secrets = [], schedule = [], requests = []\<rparr>"

definition onboarded_store :: store where
  "onboarded_store =
     \<lparr>project = ''proj'',
      secrets = [(''spotify1-refresh-u789'', [ascii_encode example_text])],
      schedule = [], requests = []\<rparr>"

text \<open>Environments that lack one value, and the configuration without an admin key.\<close>

definition env_without_app_url :: "string \<rightharpoonup> string" where
  "env_without_app_url = example_env(''APP_URL'' := None)"

definition env_without_project :: "string \<rightharpoonup> string" where
  "env_without_project = example_env(''GCP_PROJECT'' := None)"

definition env_without_admin_key :: "string \<rightharpoonup> string" where
  "env_without_admin_key = example_env(''ADMIN_API_KEY'' := None)"

definition cfg_without_admin_key :: config where
  "cfg_without_admin_key = example_cfg\<lparr>ADMIN_API_KEY := None\<rparr>"

text \<open>
  Providers that answer otherwise: a token response 201 with both tokens, a token response
  201 or 200 without refresh token, a profile response 201 or 200 without identifier.
\<close>

definition world_token_201 :: world where
  "world_token_201 =
     example_world\<lparr>http_post := (\<lambda>url data auth. HttpResponse 201 (Some example_tokens))\<rparr>"

definition world_no_refresh_201 :: world where
  "world_no_refresh_201 =
     example_world\<lparr>http_post := (\<lambda>url data auth.
        HttpResponse 201 (Some (JObj [(''access_token'', JStr ''AT1'')])))\<rparr>"

definition world_no_refresh :: world where
  "world_no_refresh =
     example_world\<lparr>http_post := (\<lambda>url data auth.
        HttpResponse 200 (Some (JObj [(''access_token'', JStr ''AT1'')])))\<rparr>"

definition world_no_id_201 :: world where
  "world_no_id_201 =
     example_world\<lparr>http_get := (\<lambda>url headers.
        HttpResponse 201 (Some (JObj [(''display_name'', JStr ''Jane'')])))\<rparr>"

definition world_no_id :: world where
  "world_no_id =
     example_world\<lparr>http_get := (\<lambda>url headers.
        HttpResponse 200 (Some (JObj [(''display_name'', JStr ''Jane'')])))\<rparr>"

text \<open>
  A store in which another onboarding creates the secret of user \<open>u789\<close> between the
  lookup and the creation of this one, and a store whose lookup fails once.
\<close>

definition race_store :: store where
  "race_store =
     \<lparr>project = ''proj'', secrets = [],
      schedule = [Served, Raced (CreateSecret ''projects/proj'' ''spotify1-refresh-u789'')],
      requests = []\<rparr>"

definition failing_store :: store where
  "failing_store = onboarded_store\<lparr>schedule := [Fails Unavailable]\<rparr>"

text \<open>The empty store after the onboarding of user \<open>u789\<close>, and after a second one.\<close>

definition stored_store :: store where
  "stored_store =
     \<lparr>project = ''proj'',
      secrets = [(''spotify1-refresh-u789'', [ascii_encode example_text])],
      schedule = [],
      requests =
        [GetSecret ''projects/proj/secrets/spotify1-refresh-u789'',
         CreateSecret ''projects/proj'' ''spotify1-refresh-u789'',
         AddSecretVersion ''projects/proj/secrets/spotify1-refresh-u789''
           (ascii_encode example_text)]\<rparr>"

definition stored_twice_store :: store where
  "stored_twice_store =
     \<lparr>project = ''proj'',
      secrets = [(''spotify1-refresh-u789'', [ascii_encode example_text, ascii_encode example_text])],
      schedule = [],
      requests =
        [GetSecret ''projects/proj/secrets/spotify1-refresh-u789'',
         CreateSecret ''projects/proj'' ''spotify1-refresh-u789'',
         AddSecretVersion ''projects/proj/secrets/spotify1-refresh-u789''
           (ascii_encode example_text),
         GetSecret ''projects/proj/secrets/spotify1-refresh-u789'',
         AddSecretVersion ''projects/proj/secrets/spotify1-refresh-u789''
           (ascii_encode example_text)]\<rparr>"

text \<open>What the race leaves: the secret of the other onboarding, without a version.\<close>

definition raced_store :: store where
  "raced_store =
     \<lparr>project = ''proj'',
      secrets = [(''spotify1-refresh-u789'', [])],
      schedule = [],
      requests =
        [GetSecret ''projects/proj/secrets/spotify1-refresh-u789'',
         CreateSecret ''projects/proj'' ''spotify1-refresh-u789'']\<rparr>"

section \<open>Startup\<close>

text \<open>
  C5, as the code has it. The claim lists six required values; the check of lines 28 and
  29 tests four. With \<open>APP_URL\<close> absent and everything else present the process starts.
\<close>

theorem startup_app_url_counterexample:
  "env_without_app_url ''APP_URL'' = None \<and>
   startup env_without_app_url = Inr (example_cfg\<lparr>APP_URL := None\<rparr>)"
  by (simp add: env_without_app_url_def example_env_def startup_def example_cfg_def
      getenv_default_def)

text \<open>
  C5, amended: at startup the client identifier, the client secret, the redirect URI and
  the store project identifier are validated, and the process fails fast when one of them
  is absent or empty; the public app URL is not validated, its value never changes
  whether the process starts.
\<close>

theorem startup_fails_fast:
  "(k \<in> {''SPOTIFY_CLIENT_ID'', ''SPOTIFY_CLIENT_SECRET'', ''SPOTIFY_REDIRECT_URI'', ''GCP_PROJECT''}
      \<and> \<not> str_truthy (env k)
    \<longrightarrow> startup env = Inl (Exception ''Missing required env variables.''))
   \<and> isl (startup (env(''APP_URL'' := v))) = isl (startup env)"
proof (intro conjI impI)
  assume "k \<in> {''SPOTIFY_CLIENT_ID'', ''SPOTIFY_CLIENT_SECRET'', ''SPOTIFY_REDIRECT_URI'', ''GCP_PROJECT''}
      \<and> \<not> str_truthy (env k)"
  then show "startup env = Inl (Exception ''Missing required env variables.'')"
    by (auto simp: startup_def)
next
  show "isl (startup (env(''APP_URL'' := v))) = isl (startup env)"
    by (auto simp: startup_def Let_def split: option.splits)
qed

theorem startup_fails_fast_witness:
  "''GCP_PROJECT'' \<in> {''SPOTIFY_CLIENT_ID'', ''SPOTIFY_CLIENT_SECRET'', ''SPOTIFY_REDIRECT_URI'', ''GCP_PROJECT''}
   \<and> \<not> str_truthy (env_without_project ''GCP_PROJECT'')
   \<and> startup env_without_project = Inl (Exception ''Missing required env variables.'')
   \<and> isl (startup (env_without_project(''APP_URL'' := Some ''x''))) = isl (startup env_without_project)"
  using startup_fails_fast [of "''GCP_PROJECT''" env_without_project "Some ''x''"]
  by (simp add: env_without_project_def example_env_def)

section \<open>The authorization URL\<close>

lemma hex_digit_mem: "hex_digit n \<in> set ''0123456789abcdef''"
proof -
  have "n mod 16 < length ''0123456789abcdef''" by simp
  then show ?thesis unfolding hex_digit_def by (rule nth_mem)
qed

lemma uuid_hex_length: "length (uuid_hex u) = 32"
  by (simp add: uuid_hex_def)

lemma uuid_hex_digits: "set (uuid_hex u) \<subseteq> set ''0123456789abcdef''"
  unfolding uuid_hex_def using hex_digit_mem by auto

lemma upt_8: "[0..<8] = [0, 1, 2, 3, 4, 5, 6, 7]"
  by (simp add: upt_rec)

lemma example_token: "take 8 (uuid_hex (uuid4 example_world)) = ''0949b0f6''"
  by (simp add: example_world_def uuid_hex_def take_map upt_8 hex_digit_def)

text \<open>
  C10: the URL is built from the parameters of \<open>auth_params\<close>; their \<open>state\<close> is
  \<open>st-\<close> followed by the first 8 hexadecimal digits of a fresh UUID when no state or the
  empty state is given, which then give the same URL, and is the given state when that is
  not empty.
\<close>

theorem build_auth_url_state:
  "build_auth_url lib cfg w state =
     SPOTIFY_AUTHORIZE_URL @ ''?'' @ urlencode lib (auth_params cfg w state)
   \<and> length (take 8 (uuid_hex (uuid4 w))) = 8
   \<and> set (take 8 (uuid_hex (uuid4 w))) \<subseteq> set ''0123456789abcdef''
   \<and> (state = None \<or> state = Some [] \<longrightarrow>
        map_of (auth_params cfg w state) ''state'' = Some (''st-'' @ take 8 (uuid_hex (uuid4 w))))
   \<and> (\<forall>s. state = Some s \<and> s \<noteq> [] \<longrightarrow> map_of (auth_params cfg w state) ''state'' = Some s)
   \<and> build_auth_url lib cfg w (Some []) = build_auth_url lib cfg w None"
proof (intro conjI)
  show "set (take 8 (uuid_hex (uuid4 w))) \<subseteq> set ''0123456789abcdef''"
    using set_take_subset uuid_hex_digits by (rule subset_trans)
qed (auto simp: build_auth_url_def auth_params_def uuid_hex_length)

theorem build_auth_url_state_witness:
  "map_of (auth_params example_cfg example_world None) ''state'' = Some ''st-0949b0f6''
   \<and> map_of (auth_params example_cfg example_world (Some [])) ''state'' = Some ''st-0949b0f6''
   \<and> map_of (auth_params example_cfg example_world (Some ''xyz'')) ''state'' = Some ''xyz''"
  using build_auth_url_state [of example_lib example_cfg example_world None]
    build_auth_url_state [of example_lib example_cfg example_world "Some []"]
    build_auth_url_state [of example_lib example_cfg example_world "Some ''xyz''"]
    example_token
  by simp

section \<open>The callback handler: a missing code\<close>

text \<open>
  C8: without a \<open>code\<close> parameter the handler raises the HTTP error 400, the list of
  outbound calls is empty and the store, with its record of requests, is untouched.
\<close>

theorem callback_missing_code:
  "callback lib cfg w None state st = (HTTPException 400 ''Missing code parameter'', st, [])"
  by (simp add: callback_def)

theorem callback_missing_code_witness:
  "callback example_lib example_cfg example_world None (Some ''st-0949b0f6'') onboarded_store =
     (HTTPException 400 ''Missing code parameter'', onboarded_store, [])"
  by (rule callback_missing_code)

section \<open>The store and the adapter\<close>

lemma secret_path_inj: "(secret_path p i = secret_path p j) = (i = j)"
  by (simp add: secret_path_def)

lemma find_fst_eq: "find (\<lambda>(j, vs). j = i) ss = map_option (Pair i) (map_of ss i)"
  by (induction ss) auto

lemma find_own_path:
  "find (\<lambda>(j, vs). secret_path p j = secret_path p i) ss = map_option (Pair i) (map_of ss i)"
  by (simp add: secret_path_inj find_fst_eq)

lemma find_secret_own:
  "find_secret p ss (secret_path p i) = map_option (\<lambda>vs. i) (map_of ss i)"
  by (simp add: find_secret_def find_own_path option.map_comp comp_def)

lemma map_of_append_version:
  "map_of (map (\<lambda>(j, vs). if j = i then (j, vs @ [d]) else (j, vs)) ss) k
     = (if k = i then map_option (\<lambda>vs. vs @ [d]) (map_of ss i) else map_of ss k)"
  by (induction ss) auto

lemma fst_append_version:
  "map (\<lambda>x. fst (case x of (j, vs) \<Rightarrow> if j = i then (j, vs @ [d]) else (j, vs))) ss = map fst ss"
  by (induction ss) auto

lemma serve_access_own:
  "serve p (AccessSecretVersion (secret_path p i @ ''/versions/latest'')) ss =
     (case map_of ss i of
        None \<Rightarrow> (Inl NotFound, ss)
      | Some vs \<Rightarrow> if vs = [] then (Inl NotFound, ss) else (Inr (RPayload (last vs)), ss))"
  by (simp add: find_own_path split: option.splits)

lemma serve_get_own:
  "serve p (GetSecret (secret_path p i)) ss =
     (case map_of ss i of None \<Rightarrow> (Inl NotFound, ss) | Some vs \<Rightarrow> (Inr (RSecret (secret_path p i)), ss))"
  by (simp add: find_secret_own split: option.splits)

lemma serve_add_own:
  "serve p (AddSecretVersion (secret_path p i) d) ss =
     (case map_of ss i of
        None \<Rightarrow> (Inl NotFound, ss)
      | Some vs \<Rightarrow> (Inr (RVersion (secret_path p i)),
                    map (\<lambda>(j, vs). if j = i then (j, vs @ [d]) else (j, vs)) ss))"
  by (simp add: find_secret_own split: option.splits)

lemma serve_ids: "set (map fst ss) \<subseteq> set (map fst (snd (serve p req ss)))"
  by (cases req) (auto simp: fst_append_version comp_def simp del: set_map split: option.splits)

lemma serve_wf: "wf_secrets ss \<Longrightarrow> wf_secrets (snd (serve p req ss))"
  by (cases req) (auto simp: wf_secrets_def fst_append_version comp_def simp del: set_map split: option.splits)

lemma sm_call_fails:
  "schedule st = Fails e # rest \<Longrightarrow>
   sm_call req st = (Inl e, st\<lparr>schedule := rest, requests := requests st @ [req]\<rparr>)"
  by (simp add: sm_call_def)

lemma sm_call_served:
  "\<forall>e rest. schedule st \<noteq> Fails e # rest \<Longrightarrow>
   sm_call req st =
     (fst (serve (project st) req (secrets_seen st)),
      st\<lparr>schedule := tl (schedule st), requests := requests st @ [req],
         secrets := snd (serve (project st) req (secrets_seen st))\<rparr>)"
  by (auto simp: sm_call_def secrets_seen_def split: list.splits sm_event.splits prod.splits)

lemma sm_call_frame:
  "sm_call req st = (r, st') \<Longrightarrow>
   project st' = project st \<and> schedule st' = tl (schedule st) \<and>
   requests st' = requests st @ [req]"
  by (auto simp: sm_call_def Let_def split: list.splits sm_event.splits prod.splits)


lemma create_or_update_secret_unfold:
  "create_or_update_secret lib self i payload st =
     (case sm_call (GetSecret (secret_path (project_id self) i)) st of
        (Inr r, st1) \<Rightarrow>
          (case sm_call (AddSecretVersion (secret_path (project_id self) i)
                           (encode_utf8 lib payload)) st1 of
             (Inl e, s') \<Rightarrow> (Inl (ApiError e), s')
           | (Inr r, s') \<Rightarrow> (Inr (), s'))
      | (Inl e, st1) \<Rightarrow>
          (case sm_call (CreateSecret (project_path (project_id self)) i) st1 of
             (Inl e', st2) \<Rightarrow> (Inl (ApiError e'), st2)
           | (Inr r, st2) \<Rightarrow>
               (case sm_call (AddSecretVersion (secret_path (project_id self) i)
                                (encode_utf8 lib payload)) st2 of
                  (Inl e, s') \<Rightarrow> (Inl (ApiError e), s')
                | (Inr r, s') \<Rightarrow> (Inr (), s'))))"
  by (simp only: create_or_update_secret_def Let_def secret_path_def project_path_def)

lemma access_and_parse_unfold:
  "access_and_parse lib self i st =
     (case sm_call (AccessSecretVersion (secret_path (project_id self) i @ ''/versions/latest'')) st of
        (Inl e, st1) \<Rightarrow> (Inl (ApiError e), st1)
      | (Inr (RPayload data), st1) \<Rightarrow>
          (case decode_utf8 lib data of
             None \<Rightarrow> (Inl UnicodeDecodeError, st1)
           | Some payload \<Rightarrow>
               (case json_loads lib payload of
                  None \<Rightarrow> (Inl JSONDecodeError, st1)
                | Some v \<Rightarrow> (Inr v, st1)))
      | (Inr r, st1) \<Rightarrow> (Inl AttributeError, st1))"
  by (simp add: access_and_parse_def secret_path_def project_path_def Let_def)

lemma get_secret_payload_returns:
  "\<exists>v st'. get_secret_payload lib self i st = (Inr v, st')"
  by (simp add: get_secret_payload_def split: prod.splits sum.splits)

lemma get_secret_payload_value:
  assumes "project_id self = project st"
  shows "fst (get_secret_payload lib self i st) =
     Inr (case schedule st of
            Fails e # rest \<Rightarrow> JNull
          | _ \<Rightarrow> spec_get_latest lib (secrets_seen st) i)"
proof (cases "\<exists>e rest. schedule st = Fails e # rest")
  case True
  then obtain e rest where "schedule st = Fails e # rest" by blast
  then show ?thesis
    by (simp add: get_secret_payload_def access_and_parse_unfold sm_call_fails)
next
  case False
  then have served: "\<forall>e rest. schedule st \<noteq> Fails e # rest" by blast
  have other: "(case schedule st of Fails e # rest \<Rightarrow> JNull
                | _ \<Rightarrow> spec_get_latest lib (secrets_seen st) i)
               = spec_get_latest lib (secrets_seen st) i"
    using served by (auto split: list.splits sm_event.splits)
  show ?thesis
    unfolding other
    by (simp add: get_secret_payload_def access_and_parse_unfold sm_call_served [OF served]
        assms [symmetric] find_own_path spec_get_latest_def split: option.splits)
qed

text \<open>
  C9: \<open>get_secret_payload\<close> always returns, for every secret name, store and schedule.
  For a client of the store's project the value is \<^verbatim>\<open>None\<close> when the call fails
  (network, permission), and otherwise what the specification asks of \<open>get_latest\<close> on
  the secrets the call meets: \<^verbatim>\<open>None\<close> for a secret that does not exist, has no
  version, or whose latest payload does not decode or parse, else the parsed payload of
  the latest version.
\<close>

theorem get_secret_payload_never_raises:
  "\<exists>v st'. get_secret_payload lib self i st = (Inr v, st') \<and>
     (project_id self = project st \<longrightarrow>
        v = (case schedule st of
               Fails e # rest \<Rightarrow> JNull
             | _ \<Rightarrow> spec_get_latest lib (secrets_seen st) i))"
proof -
  obtain v st' where r: "get_secret_payload lib self i st = (Inr v, st')"
    using get_secret_payload_returns by blast
  have "project_id self = project st \<longrightarrow>
        v = (case schedule st of
               Fails e # rest \<Rightarrow> JNull
             | _ \<Rightarrow> spec_get_latest lib (secrets_seen st) i)"
    using get_secret_payload_value [of self st lib i] r by simp
  with r show ?thesis by blast
qed

lemma ascii_roundtrip:
  "list_all (\<lambda>c. (of_char c :: nat) < 128) s \<Longrightarrow> ascii_decode (ascii_encode s) = Some s"
proof -
  assume a: "list_all (\<lambda>c. (of_char c :: nat) < 128) s"
  have u: "unat (of_nat (of_char c) :: 8 word) = of_char c" for c
    by (simp add: unat_of_nat)
  have "list_all (\<lambda>b. unat b < 128) (ascii_encode s)"
    using a by (simp add: ascii_encode_def list_all_iff u)
  moreover have "map (\<lambda>b. char_of (unat b)) (ascii_encode s) = s"
    by (simp add: ascii_encode_def u comp_def)
  ultimately show ?thesis by (simp add: ascii_decode_def)
qed

lemma example_text_ascii: "list_all (\<lambda>c. (of_char c :: nat) < 128) example_text"
  by (simp add: example_text_def)

lemma example_decode: "ascii_decode (ascii_encode example_text) = Some example_text"
  using example_text_ascii by (rule ascii_roundtrip)

theorem get_secret_payload_never_raises_witness:
  "project_id (sm example_cfg) = project onboarded_store
   \<and> fst (get_secret_payload example_lib (sm example_cfg) ''spotify1-refresh-u789'' onboarded_store)
       = Inr example_record
   \<and> fst (get_secret_payload example_lib (sm example_cfg) ''spotify1-refresh-nobody'' onboarded_store)
       = Inr JNull
   \<and> fst (get_secret_payload example_lib (sm example_cfg) ''spotify1-refresh-u789'' failing_store)
       = Inr JNull"
  using get_secret_payload_never_raises
          [of example_lib "sm example_cfg" "''spotify1-refresh-u789''" onboarded_store]
        get_secret_payload_never_raises
          [of example_lib "sm example_cfg" "''spotify1-refresh-nobody''" onboarded_store]
        get_secret_payload_never_raises
          [of example_lib "sm example_cfg" "''spotify1-refresh-u789''" failing_store]
        example_decode
  by (auto simp: sm_def example_cfg_def onboarded_store_def failing_store_def
      spec_get_latest_def secrets_seen_def example_lib_def)

section \<open>What the adapter leaves in the store\<close>

lemma sm_call_add_latest:
  assumes "sm_call (AddSecretVersion (secret_path p i) d) s = (Inr r, s')"
    and "project s = p"
  shows "\<exists>vs. map_of (secrets s') i = Some (vs @ [d])"
proof (cases "\<exists>e rest. schedule s = Fails e # rest")
  case True
  then show ?thesis using assms by (auto simp: sm_call_fails)
next
  case False
  then have served: "\<forall>e rest. schedule s \<noteq> Fails e # rest" by blast
  show ?thesis
    using assms
    by (auto simp: sm_call_served [OF served] find_secret_own map_of_append_version
        split: option.splits)
qed

lemma sm_call_wf:
  assumes "sm_call req st = (r, st')" and "wf_secrets (secrets st)"
  shows "wf_secrets (secrets st')"
proof (cases "\<exists>e rest. schedule st = Fails e # rest")
  case True
  then show ?thesis using assms by (auto simp: sm_call_fails)
next
  case False
  then have served: "\<forall>e rest. schedule st \<noteq> Fails e # rest" by blast
  have "wf_secrets (secrets_seen st)"
    using assms(2) by (auto simp: secrets_seen_def serve_wf split: list.splits sm_event.splits)
  then have "wf_secrets (snd (serve (project st) req (secrets_seen st)))"
    by (rule serve_wf)
  then show ?thesis
    using assms(1) by (auto simp: sm_call_served [OF served])
qed

lemma sm_call_ids:
  assumes "sm_call req st = (r, st')"
  shows "set (map fst (secrets st)) \<subseteq> set (map fst (secrets st'))"
proof (cases "\<exists>e rest. schedule st = Fails e # rest")
  case True
  then show ?thesis using assms by (fastforce simp: sm_call_fails)
next
  case False
  then have served: "\<forall>e rest. schedule st \<noteq> Fails e # rest" by blast
  have "set (map fst (secrets st)) \<subseteq> set (map fst (secrets_seen st))"
    using serve_ids by (auto simp: secrets_seen_def split: list.splits sm_event.splits)
  also have "\<dots> \<subseteq> set (map fst (snd (serve (project st) req (secrets_seen st))))"
    by (rule serve_ids)
  finally have sub: "set (map fst (secrets st))
      \<subseteq> set (map fst (snd (serve (project st) req (secrets_seen st))))" .
  have "secrets st' = snd (serve (project st) req (secrets_seen st))"
    using assms(1) by (auto simp: sm_call_served [OF served])
  with sub show ?thesis by simp
qed

lemma create_or_update_secret_cases:
  assumes "create_or_update_secret lib self i payload st = (res, st')"
  obtains
    (looked_up) r st1 ra where
      "sm_call (GetSecret (secret_path (project_id self) i)) st = (Inr r, st1)"
      "sm_call (AddSecretVersion (secret_path (project_id self) i) (encode_utf8 lib payload)) st1
         = (ra, st')"
      "res = map_sum ApiError (\<lambda>x. ()) ra"
  | (creation_failed) e st1 e' where
      "sm_call (GetSecret (secret_path (project_id self) i)) st = (Inl e, st1)"
      "sm_call (CreateSecret (project_path (project_id self)) i) st1 = (Inl e', st')"
      "res = Inl (ApiError e')"
  | (created) e st1 r st2 ra where
      "sm_call (GetSecret (secret_path (project_id self) i)) st = (Inl e, st1)"
      "sm_call (CreateSecret (project_path (project_id self)) i) st1 = (Inr r, st2)"
      "sm_call (AddSecretVersion (secret_path (project_id self) i) (encode_utf8 lib payload)) st2
         = (ra, st')"
      "res = map_sum ApiError (\<lambda>x. ()) ra"
  using assms
  by (auto simp: create_or_update_secret_unfold split: prod.splits sum.splits)

lemma create_or_update_secret_latest:
  assumes "create_or_update_secret lib self i payload st = (Inr u, st')"
    and "project_id self = project st"
  shows "\<exists>vs. map_of (secrets st') i = Some (vs @ [encode_utf8 lib payload])"
  using assms(1)
proof (cases rule: create_or_update_secret_cases)
  case (looked_up r st1 ra)
  from looked_up(3) obtain r' where "ra = Inr r'" by (cases ra) auto
  moreover have "project st1 = project_id self"
    using sm_call_frame [OF looked_up(1)] assms(2) by simp
  ultimately show ?thesis
    using looked_up(2) sm_call_add_latest by blast
next
  case (creation_failed e st1 e')
  then show ?thesis by simp
next
  case (created e st1 r st2 ra)
  from created(4) obtain r' where "ra = Inr r'" by (cases ra) auto
  moreover have "project st2 = project_id self"
    using sm_call_frame [OF created(1)] sm_call_frame [OF created(2)] assms(2) by simp
  ultimately show ?thesis
    using created(3) sm_call_add_latest by blast
qed

section \<open>The callback handler: success and the validation of the responses\<close>

text \<open>
  C1, amended: when the token response has status 200 and carries both tokens, the profile
  response has status 200 and carries a non-empty id, and the storage call, made to the
  store of the configured project, succeeds, then
  the handler answers with the success page carrying the display name and the user id,
  after exactly the token request and the profile request, and the latest version of the
  secret named prefix + id is the serialised record with the profile's id and display name
  (the empty string when the profile has none), the refresh token and the scope of the
  token response, and the time of the write.
\<close>

theorem callback_stores_credentials:
  assumes "c \<noteq> []"
    and "http_post w SPOTIFY_TOKEN_URL (token_data cfg c) (client_auth cfg)
           = HttpResponse 200 (Some (JObj token_json))"
    and "truthy (dict_get token_json ''access_token'')"
    and "truthy (dict_get token_json ''refresh_token'')"
    and "http_get w SPOTIFY_ME_URL (bearer_headers lib (dict_get token_json ''access_token''))
           = HttpResponse 200 (Some (JObj me))"
    and "truthy (dict_get me ''id'')"
    and "create_or_update_secret lib (sm cfg)
           (SPOTIFY_SECRET_PREFIX cfg @ py_str lib (dict_get me ''id''))
           (json_dumps lib (credential_record w token_json me)) st = (Inr (), st')"
    and "project st = GCP_PROJECT cfg"
  shows "callback lib cfg w (Some c) state st =
           (success_page (dict_get_default me ''display_name'' (JStr [])) (dict_get me ''id''),
            st',
            [Post SPOTIFY_TOKEN_URL (token_data cfg c) (client_auth cfg),
             Get SPOTIFY_ME_URL (bearer_headers lib (dict_get token_json ''access_token''))])
         \<and> versions_of (secrets st') (SPOTIFY_SECRET_PREFIX cfg @ py_str lib (dict_get me ''id'')) \<noteq> []
         \<and> last (versions_of (secrets st') (SPOTIFY_SECRET_PREFIX cfg @ py_str lib (dict_get me ''id'')))
             = encode_utf8 lib (json_dumps lib (credential_record w token_json me))"
proof -
  have "project_id (sm cfg) = project st"
    using assms(8) by (simp add: sm_def)
  from create_or_update_secret_latest [OF assms(7) this]
  have stored: "versions_of (secrets st') (SPOTIFY_SECRET_PREFIX cfg @ py_str lib (dict_get me ''id'')) \<noteq> []
         \<and> last (versions_of (secrets st') (SPOTIFY_SECRET_PREFIX cfg @ py_str lib (dict_get me ''id'')))
             = encode_utf8 lib (json_dumps lib (credential_record w token_json me))"
    by (auto simp: versions_of_def)
  have "callback lib cfg w (Some c) state st =
           (success_page (dict_get_default me ''display_name'' (JStr [])) (dict_get me ''id''),
            st',
            [Post SPOTIFY_TOKEN_URL (token_data cfg c) (client_auth cfg),
             Get SPOTIFY_ME_URL (bearer_headers lib (dict_get token_json ''access_token''))])"
    using assms(1-7) by (simp add: callback_def Let_def)
  with stored show ?thesis by blast
qed

text \<open>
  C6, amended: for every token response with a 2xx status that lacks one of the tokens,
  the handler makes no profile request and leaves the store untouched; when the status is
  200 and the body is a JSON object, its answer is the missing-tokens page.
\<close>

theorem callback_missing_tokens:
  assumes "c \<noteq> []"
    and "http_post w SPOTIFY_TOKEN_URL (token_data cfg c) (client_auth cfg)
           = HttpResponse status body"
    and "200 \<le> status" and "status < 300"
    and "\<not> has_tokens body"
  shows "\<exists>r. callback lib cfg w (Some c) state st =
           (r, st, [Post SPOTIFY_TOKEN_URL (token_data cfg c) (client_auth cfg)])
         \<and> (status = 200 \<and> is_object body \<longrightarrow> r = error_page ''Missing tokens.'')"
  using assms
  by (auto simp: callback_def Let_def has_tokens_def is_object_def
      split: option.splits json.splits)

text \<open>
  C7, amended: after a token response 200 with both tokens, for every profile response
  with a 2xx status that has no non-empty id, the handler leaves the store untouched;
  when the status is 200 and the body is a JSON object, its answer is the
  missing-identity page.
\<close>

theorem callback_missing_identity:
  assumes "c \<noteq> []"
    and "http_post w SPOTIFY_TOKEN_URL (token_data cfg c) (client_auth cfg)
           = HttpResponse 200 (Some (JObj token_json))"
    and "truthy (dict_get token_json ''access_token'')"
    and "truthy (dict_get token_json ''refresh_token'')"
    and "http_get w SPOTIFY_ME_URL (bearer_headers lib (dict_get token_json ''access_token''))
           = HttpResponse status body"
    and "200 \<le> status" and "status < 300"
    and "\<not> has_id body"
  shows "\<exists>r. callback lib cfg w (Some c) state st =
           (r, st,
            [Post SPOTIFY_TOKEN_URL (token_data cfg c) (client_auth cfg),
             Get SPOTIFY_ME_URL (bearer_headers lib (dict_get token_json ''access_token''))])
         \<and> (status = 200 \<and> is_object body \<longrightarrow> r = error_page ''Profile missing ID.'')"
  using assms
  by (auto simp: callback_def Let_def has_id_def is_object_def
      split: option.splits json.splits)


lemma example_dumps:
  "json_dumps example_lib
     (credential_record example_world
        [(''access_token'', JStr ''AT1''), (''refresh_token'', JStr ''RT1''),
         (''scope'', JStr ''user-read-email'')]
        [(''id'', JStr ''u789''), (''display_name'', JStr ''Jane'')]) = example_text"
  by (simp add: example_lib_def example_record_def example_world_def dict_get_def
      dict_get_default_def)

lemma example_store_call:
  "create_or_update_secret example_lib (sm example_cfg) ''spotify1-refresh-u789'' example_text
     empty_store = (Inr (), stored_store)"
  by (simp add: create_or_update_secret_def sm_def example_cfg_def empty_store_def
      stored_store_def sm_call_def Let_def find_secret_def secret_path_def project_path_def
      valid_id_def example_lib_def)

lemma example_store_call_again:
  "create_or_update_secret example_lib (sm example_cfg) ''spotify1-refresh-u789'' example_text
     stored_store = (Inr (), stored_twice_store)"
  by (simp add: create_or_update_secret_def sm_def example_cfg_def stored_twice_store_def
      stored_store_def sm_call_def Let_def find_secret_def secret_path_def project_path_def
      valid_id_def example_lib_def)

text \<open>
  The scenario of the specification: code \<open>abc123\<close>, the record of Jane stored under
  \<open>spotify1-refresh-u789\<close>.
\<close>

theorem callback_stores_credentials_witness:
  "callback example_lib example_cfg example_world (Some ''abc123'') None empty_store =
     (success_page (JStr ''Jane'') (JStr ''u789''), stored_store,
      [Post SPOTIFY_TOKEN_URL (token_data example_cfg ''abc123'') (client_auth example_cfg),
       Get SPOTIFY_ME_URL [(''Authorization'', ''Bearer AT1'')]])
   \<and> last (versions_of (secrets stored_store) ''spotify1-refresh-u789'') = ascii_encode example_text"
proof -
  let ?tj = "[(''access_token'', JStr ''AT1''), (''refresh_token'', JStr ''RT1''),
              (''scope'', JStr ''user-read-email'')]"
  let ?me = "[(''id'', JStr ''u789''), (''display_name'', JStr ''Jane'')]"
  have at: "dict_get ?tj ''access_token'' = JStr ''AT1''"
    and rt: "dict_get ?tj ''refresh_token'' = JStr ''RT1''"
    and uid: "dict_get ?me ''id'' = JStr ''u789''"
    and dn: "dict_get_default ?me ''display_name'' (JStr []) = JStr ''Jane''"
    by (simp_all add: dict_get_def dict_get_default_def)
  have h1: "''abc123'' \<noteq> []" by simp
  have h2: "http_post example_world SPOTIFY_TOKEN_URL (token_data example_cfg ''abc123'')
              (client_auth example_cfg) = HttpResponse 200 (Some (JObj ?tj))"
    by (simp add: example_world_def example_tokens_def)
  have h3: "truthy (dict_get ?tj ''access_token'')" by (simp add: at)
  have h4: "truthy (dict_get ?tj ''refresh_token'')" by (simp add: rt)
  have h5: "http_get example_world SPOTIFY_ME_URL
              (bearer_headers example_lib (dict_get ?tj ''access_token''))
            = HttpResponse 200 (Some (JObj ?me))"
    by (simp add: at example_world_def example_profile_def)
  have h6: "truthy (dict_get ?me ''id'')" by (simp add: uid)
  have h7: "create_or_update_secret example_lib (sm example_cfg)
              (SPOTIFY_SECRET_PREFIX example_cfg @ py_str example_lib (dict_get ?me ''id''))
              (json_dumps example_lib (credential_record example_world ?tj ?me)) empty_store
            = (Inr (), stored_store)"
    unfolding example_dumps unfolding uid
    using example_store_call by (simp add: example_cfg_def)
  have h8: "project empty_store = GCP_PROJECT example_cfg"
    by (simp add: empty_store_def example_cfg_def)
  note stored = callback_stores_credentials [OF h1 h2 h3 h4 h5 h6 h7 h8, of None]
  from stored [unfolded example_dumps] show ?thesis
    unfolding uid dn at
    by (simp add: example_cfg_def example_lib_def)
qed

text \<open>
  C1 as stated, with success meaning any 2xx status: a token response 201 with both tokens
  (line 102 tests \<^verbatim>\<open>status_code != 200\<close>) gives the exchange-failure page and nothing
  is stored, although the profile request and the storage call would succeed.
\<close>

theorem callback_token_201_counterexample:
  "http_post world_token_201 SPOTIFY_TOKEN_URL (token_data example_cfg ''abc123'')
     (client_auth example_cfg) = HttpResponse 201 (Some example_tokens)
   \<and> has_tokens (Some example_tokens)
   \<and> http_get world_token_201 SPOTIFY_ME_URL [(''Authorization'', ''Bearer AT1'')]
       = HttpResponse 200 (Some example_profile)
   \<and> has_id (Some example_profile)
   \<and> fst (create_or_update_secret example_lib (sm example_cfg) ''spotify1-refresh-u789''
            example_text empty_store) = Inr ()
   \<and> callback example_lib example_cfg world_token_201 (Some ''abc123'') None empty_store =
       (error_page ''Failed to exchange code.'', empty_store,
        [Post SPOTIFY_TOKEN_URL (token_data example_cfg ''abc123'') (client_auth example_cfg)])"
  by (simp add: example_store_call world_token_201_def example_world_def example_tokens_def
      example_profile_def has_tokens_def has_id_def dict_get_def dict_get_default_def
      callback_def)

theorem callback_missing_tokens_witness:
  "callback example_lib example_cfg world_no_refresh (Some ''abc123'') None empty_store =
     (error_page ''Missing tokens.'', empty_store,
      [Post SPOTIFY_TOKEN_URL (token_data example_cfg ''abc123'') (client_auth example_cfg)])"
proof -
  let ?body = "Some (JObj [(''access_token'', JStr ''AT1'')])"
  have h1: "''abc123'' \<noteq> []" by simp
  have h2: "http_post world_no_refresh SPOTIFY_TOKEN_URL (token_data example_cfg ''abc123'')
              (client_auth example_cfg) = HttpResponse 200 ?body"
    by (simp add: world_no_refresh_def)
  have h3: "(200::int) \<le> 200" and h4: "(200::int) < 300" by simp_all
  have h5: "\<not> has_tokens ?body"
    by (simp add: has_tokens_def dict_get_def dict_get_default_def)
  have "is_object ?body" by (simp add: is_object_def)
  with callback_missing_tokens [OF h1 h2 h3 h4 h5, of example_lib None empty_store]
  show ?thesis by auto
qed

text \<open>
  C6 as stated: a token response 201 without refresh token gives the exchange-failure
  page, not the missing-tokens page.
\<close>

theorem callback_missing_tokens_201_counterexample:
  "http_post world_no_refresh_201 SPOTIFY_TOKEN_URL (token_data example_cfg ''abc123'')
     (client_auth example_cfg) = HttpResponse 201 (Some (JObj [(''access_token'', JStr ''AT1'')]))
   \<and> \<not> has_tokens (Some (JObj [(''access_token'', JStr ''AT1'')]))
   \<and> callback example_lib example_cfg world_no_refresh_201 (Some ''abc123'') None empty_store =
       (error_page ''Failed to exchange code.'', empty_store,
        [Post SPOTIFY_TOKEN_URL (token_data example_cfg ''abc123'') (client_auth example_cfg)])
   \<and> error_page ''Failed to exchange code.'' \<noteq> error_page ''Missing tokens.''"
  by (simp add: world_no_refresh_201_def has_tokens_def dict_get_def dict_get_default_def
      callback_def error_page_def)

theorem callback_missing_identity_witness:
  "callback example_lib example_cfg world_no_id (Some ''abc123'') None empty_store =
     (error_page ''Profile missing ID.'', empty_store,
      [Post SPOTIFY_TOKEN_URL (token_data example_cfg ''abc123'') (client_auth example_cfg),
       Get SPOTIFY_ME_URL [(''Authorization'', ''Bearer AT1'')]])"
proof -
  let ?tj = "[(''access_token'', JStr ''AT1''), (''refresh_token'', JStr ''RT1''),
              (''scope'', JStr ''user-read-email'')]"
  let ?body = "Some (JObj [(''display_name'', JStr ''Jane'')])"
  have at: "dict_get ?tj ''access_token'' = JStr ''AT1''"
    and rt: "dict_get ?tj ''refresh_token'' = JStr ''RT1''"
    by (simp_all add: dict_get_def dict_get_default_def)
  have h1: "''abc123'' \<noteq> []" by simp
  have h2: "http_post world_no_id SPOTIFY_TOKEN_URL (token_data example_cfg ''abc123'')
              (client_auth example_cfg) = HttpResponse 200 (Some (JObj ?tj))"
    by (simp add: world_no_id_def example_world_def example_tokens_def)
  have h3: "truthy (dict_get ?tj ''access_token'')" by (simp add: at)
  have h4: "truthy (dict_get ?tj ''refresh_token'')" by (simp add: rt)
  have h5: "http_get world_no_id SPOTIFY_ME_URL
              (bearer_headers example_lib (dict_get ?tj ''access_token''))
            = HttpResponse 200 ?body"
    by (simp add: world_no_id_def)
  have h6: "(200::int) \<le> 200" and h7: "(200::int) < 300" by simp_all
  have h8: "\<not> has_id ?body"
    by (simp add: has_id_def dict_get_def dict_get_default_def)
  have "is_object ?body" by (simp add: is_object_def)
  with callback_missing_identity [OF h1 h2 h3 h4 h5 h6 h7 h8, of None empty_store]
  show ?thesis unfolding at by auto
qed

text \<open>
  C7 as stated: a profile response 201 without id (line 124 tests
  \<^verbatim>\<open>status_code != 200\<close>) gives the profile-error page, not the missing-identity page.
\<close>

theorem callback_missing_identity_201_counterexample:
  "http_get world_no_id_201 SPOTIFY_ME_URL [(''Authorization'', ''Bearer AT1'')]
     = HttpResponse 201 (Some (JObj [(''display_name'', JStr ''Jane'')]))
   \<and> \<not> has_id (Some (JObj [(''display_name'', JStr ''Jane'')]))
   \<and> callback example_lib example_cfg world_no_id_201 (Some ''abc123'') None empty_store =
       (error_page ''Spotify profile error.'', empty_store,
        [Post SPOTIFY_TOKEN_URL (token_data example_cfg ''abc123'') (client_auth example_cfg),
         Get SPOTIFY_ME_URL [(''Authorization'', ''Bearer AT1'')]])
   \<and> error_page ''Spotify profile error.'' \<noteq> error_page ''Profile missing ID.''"
  by (simp add: world_no_id_201_def example_world_def example_tokens_def has_id_def
      dict_get_def dict_get_default_def callback_def error_page_def)

section \<open>The admin endpoints\<close>

text \<open>
  C4 fails on the code. The startup check does not test \<open>ADMIN_API_KEY\<close>; when it is
  not set, the comparison of lines 160 and 179 is \<^verbatim>\<open>None != None\<close> for a request
  without \<open>x-api-key\<close> header, and both admin endpoints answer from the store.
\<close>

theorem admin_endpoints_open_without_key:
  "startup env_without_admin_key = Inr cfg_without_admin_key
   \<and> ADMIN_API_KEY cfg_without_admin_key = None
   \<and> get_token example_lib cfg_without_admin_key ''u789'' None onboarded_store =
       (JSONResponse example_record,
        onboarded_store\<lparr>requests :=
          [AccessSecretVersion ''projects/proj/secrets/spotify1-refresh-u789/versions/latest'']\<rparr>)
   \<and> admin_users example_lib cfg_without_admin_key None onboarded_store =
       (JSONResponse (JArr [JObj [(''spotify_user_id'', JStr ''u789''),
                                  (''display_name'', JStr ''Jane'')]]),
        onboarded_store\<lparr>requests :=
          [ListSecrets ''projects/proj'',
           AccessSecretVersion ''projects/proj/secrets/spotify1-refresh-u789/versions/latest'']\<rparr>)"
  by (simp add: env_without_admin_key_def example_env_def startup_def cfg_without_admin_key_def
      example_cfg_def getenv_default_def get_token_def admin_users_def sm_def
      get_secret_payload_def access_and_parse_def list_spotify_secrets_def Let_def
      sm_call_def onboarded_store_def secret_path_def project_path_def example_decode
      example_lib_def example_record_def startswith_def dict_get_def dict_get_default_def)

text \<open>
  What the gate does: a header value, or its absence, that differs from the configured
  key, or its absence, is answered with 401 and the store is not touched.
\<close>

lemma admin_key_mismatch_rejected:
  "x_api_key \<noteq> ADMIN_API_KEY cfg \<Longrightarrow>
   admin_users lib cfg x_api_key st = (HTTPException 401 ''Unauthorized'', st) \<and>
   get_token lib cfg uid x_api_key st = (HTTPException 401 ''Unauthorized'', st)"
  by (simp add: admin_users_def get_token_def)

theorem admin_endpoints_open_without_key_witness:
  "fst (get_token example_lib cfg_without_admin_key ''u789'' None onboarded_store)
     \<noteq> HTTPException 401 ''Unauthorized''
   \<and> requests (snd (get_token example_lib cfg_without_admin_key ''u789'' None onboarded_store))
       \<noteq> requests onboarded_store
   \<and> fst (admin_users example_lib cfg_without_admin_key None onboarded_store)
       \<noteq> HTTPException 401 ''Unauthorized''"
  using admin_endpoints_open_without_key by (simp add: onboarded_store_def)

section \<open>Onboarding the same user twice\<close>

lemma split_chr_length: "length (split_chr c s) = Suc (count_list s c)"
  by (induction s) (auto split: list.splits)

lemma split_chr_nonempty: "split_chr c s \<noteq> []"
  using split_chr_length [of c s] by auto

lemma split_chr_no_separator: "c \<notin> set s \<Longrightarrow> split_chr c s = [s]"
  by (induction s) auto

lemma last_split_chr_append: "last (split_chr c (xs @ c # ys)) = last (split_chr c ys)"
proof (induction xs)
  case Nil
  then show ?case by (simp add: split_chr_nonempty)
next
  case (Cons x xs)
  show ?case
  proof (cases "x = c")
    case True
    then show ?thesis using Cons by (simp add: split_chr_nonempty)
  next
    case False
    obtain y rest where s: "split_chr c (xs @ c # ys) = y # rest"
      using split_chr_nonempty by (cases "split_chr c (xs @ c # ys)") auto
    have "length (split_chr c (xs @ c # ys)) \<ge> 2"
      by (simp add: split_chr_length)
    with s have "rest \<noteq> []" by auto
    with False s Cons show ?thesis by simp
  qed
qed

lemma valid_id_no_slash:
  assumes "valid_id i"
  shows "CHR ''/'' \<notin> set i"
proof
  assume "CHR ''/'' \<in> set i"
  with assms have
    "CHR ''/'' \<in> set ''abcdefghijklmnopqrstuvwxyzABCDEFGHIJKLMNOPQRSTUVWXYZ0123456789-_''"
    unfolding valid_id_def list_all_iff by blast
  then show False by simp
qed

lemma last_segment_secret_path:
  assumes "valid_id i"
  shows "last (split_chr CHR ''/'' (secret_path p i)) = i"
proof -
  have "secret_path p i = (project_path p @ ''/secrets'') @ CHR ''/'' # i"
    by (simp add: secret_path_def)
  then have "last (split_chr CHR ''/'' (secret_path p i)) = last (split_chr CHR ''/'' i)"
    by (simp only: last_split_chr_append)
  then show ?thesis
    using valid_id_no_slash [OF assms] by (simp add: split_chr_no_separator)
qed

lemma last_segments_of_paths:
  "list_all valid_id (map fst ss) \<Longrightarrow>
   map (\<lambda>n. last (split_chr CHR ''/'' n)) (map (\<lambda>(i, vs). secret_path p i) ss) = map fst ss"
  by (induction ss) (auto simp: last_segment_secret_path)

lemma quiet_seen: "quiet st \<Longrightarrow> secrets_seen st = secrets st"
  by (auto simp: quiet_def secrets_seen_def split: list.splits sm_event.splits)

lemma sm_call_quiet: "sm_call req st = (r, st') \<Longrightarrow> quiet st \<Longrightarrow> quiet st'"
  by (drule sm_call_frame) (cases "schedule st"; simp add: quiet_def)

lemma sm_call_quiet_secrets:
  assumes "sm_call req st = (r, st')" and "quiet st"
  shows "secrets st' = secrets st \<or>
         (r = fst (serve (project st) req (secrets st)) \<and>
          secrets st' = snd (serve (project st) req (secrets st)))"
proof (cases "\<exists>e rest. schedule st = Fails e # rest")
  case True
  then show ?thesis using assms by (auto simp: sm_call_fails)
next
  case False
  then have served: "\<forall>e rest. schedule st \<noteq> Fails e # rest" by blast
  show ?thesis
    using assms by (auto simp: sm_call_served [OF served] quiet_seen)
qed

lemma serve_get_secrets: "snd (serve p (GetSecret n) ss) = ss"
  by (simp split: option.splits)

lemma serve_create_versions:
  "versions_of (snd (serve p (CreateSecret parent i) ss)) k = versions_of ss k"
proof (cases "parent = project_path p \<and> valid_id i \<and> i \<notin> set (map fst ss)")
  case True
  then have "map_of ss i = None" by (simp add: map_of_eq_None_iff)
  with True show ?thesis
    by (cases "map_of ss k") (auto simp: versions_of_def map_add_def)
next
  case False
  then show ?thesis by auto
qed

lemma serve_add_versions:
  "fst (serve p (AddSecretVersion (secret_path p i) d) ss) = Inr r \<Longrightarrow>
   versions_of (snd (serve p (AddSecretVersion (secret_path p i) d) ss)) i
     = versions_of ss i @ [d]"
  by (auto simp: find_secret_own versions_of_def map_of_append_version split: option.splits)


lemma sm_call_get_versions:
  assumes "sm_call (GetSecret n) st = (r, st')" and "quiet st"
  shows "secrets st' = secrets st"
  using sm_call_quiet_secrets [OF assms] by (auto simp: serve_get_secrets simp del: serve.simps)

lemma sm_call_create_versions:
  assumes "sm_call (CreateSecret parent i) st = (r, st')" and "quiet st"
  shows "versions_of (secrets st') k = versions_of (secrets st) k"
  using sm_call_quiet_secrets [OF assms] by (auto simp: serve_create_versions simp del: serve.simps)

lemma sm_call_add_versions:
  assumes "sm_call (AddSecretVersion (secret_path p i) d) st = (Inr r, st')"
    and "project st = p" and "quiet st"
  shows "versions_of (secrets st') i = versions_of (secrets st) i @ [d]"
proof (cases "\<exists>e rest. schedule st = Fails e # rest")
  case True
  then show ?thesis using assms by (auto simp: sm_call_fails)
next
  case False
  then have served: "\<forall>e rest. schedule st \<noteq> Fails e # rest" by blast
  from assms(1) have
    "fst (serve p (AddSecretVersion (secret_path p i) d) (secrets st)) = Inr r"
    "secrets st' = snd (serve p (AddSecretVersion (secret_path p i) d) (secrets st))"
    using assms(2,3) by (auto simp: sm_call_served [OF served] quiet_seen)
  then show ?thesis by (simp only: serve_add_versions)
qed

lemma create_or_update_secret_success:
  assumes ok: "create_or_update_secret lib self i payload st = (Inr u, st')"
    and proj: "project_id self = project st"
  shows "project st' = project st"
    and "wf_secrets (secrets st) \<Longrightarrow> wf_secrets (secrets st')"
    and "set (map fst (secrets st)) \<subseteq> set (map fst (secrets st'))"
    and "i \<in> set (map fst (secrets st'))"
    and "last (requests st')
           = AddSecretVersion (secret_path (project_id self) i) (encode_utf8 lib payload)"
    and "quiet st \<Longrightarrow> quiet st' \<and>
           versions_of (secrets st') i = versions_of (secrets st) i @ [encode_utf8 lib payload]"
proof -
  from create_or_update_secret_latest [OF ok proj]
  show "i \<in> set (map fst (secrets st'))"
    by (auto dest!: map_of_SomeD simp: image_iff intro: bexI [where x = "(i, _)"])
next
  from ok show "project st' = project st"
  proof (cases rule: create_or_update_secret_cases)
    case (looked_up r st1 ra)
    from sm_call_frame [OF looked_up(1)] sm_call_frame [OF looked_up(2)] show ?thesis by simp
  next
    case (creation_failed e st1 e')
    then show ?thesis by simp
  next
    case (created e st1 r st2 ra)
    from sm_call_frame [OF created(1)] sm_call_frame [OF created(2)]
      sm_call_frame [OF created(3)] show ?thesis by simp
  qed
next
  assume wf: "wf_secrets (secrets st)"
  from ok show "wf_secrets (secrets st')"
  proof (cases rule: create_or_update_secret_cases)
    case (looked_up r st1 ra)
    from sm_call_wf [OF looked_up(2) sm_call_wf [OF looked_up(1) wf]] show ?thesis .
  next
    case (creation_failed e st1 e')
    then show ?thesis by simp
  next
    case (created e st1 r st2 ra)
    from sm_call_wf [OF created(3) sm_call_wf [OF created(2) sm_call_wf [OF created(1) wf]]]
    show ?thesis .
  qed
next
  from ok show "set (map fst (secrets st)) \<subseteq> set (map fst (secrets st'))"
  proof (cases rule: create_or_update_secret_cases)
    case (looked_up r st1 ra)
    from sm_call_ids [OF looked_up(1)] sm_call_ids [OF looked_up(2)] show ?thesis by blast
  next
    case (creation_failed e st1 e')
    then show ?thesis by simp
  next
    case (created e st1 r st2 ra)
    from sm_call_ids [OF created(1)] sm_call_ids [OF created(2)] sm_call_ids [OF created(3)]
    show ?thesis by blast
  qed
next
  from ok show "last (requests st')
           = AddSecretVersion (secret_path (project_id self) i) (encode_utf8 lib payload)"
  proof (cases rule: create_or_update_secret_cases)
    case (looked_up r st1 ra)
    from sm_call_frame [OF looked_up(2)] show ?thesis by simp
  next
    case (creation_failed e st1 e')
    then show ?thesis by simp
  next
    case (created e st1 r st2 ra)
    from sm_call_frame [OF created(3)] show ?thesis by simp
  qed
next
  assume q: "quiet st"
  from ok show "quiet st' \<and>
           versions_of (secrets st') i = versions_of (secrets st) i @ [encode_utf8 lib payload]"
  proof (cases rule: create_or_update_secret_cases)
    case (looked_up r st1 ra)
    from looked_up(3) obtain r' where ra: "ra = Inr r'" by (cases ra) auto
    have q1: "quiet st1" using sm_call_quiet [OF looked_up(1) q] .
    have p1: "project st1 = project_id self"
      using sm_call_frame [OF looked_up(1)] proj by simp
    have "secrets st1 = secrets st" using sm_call_get_versions [OF looked_up(1) q] .
    with sm_call_add_versions [OF looked_up(2) [unfolded ra] p1 q1]
      sm_call_quiet [OF looked_up(2) q1]
    show ?thesis by simp
  next
    case (creation_failed e st1 e')
    then show ?thesis by simp
  next
    case (created e st1 r st2 ra)
    from created(4) obtain r' where ra: "ra = Inr r'" by (cases ra) auto
    have q1: "quiet st1" using sm_call_quiet [OF created(1) q] .
    have q2: "quiet st2" using sm_call_quiet [OF created(2) q1] .
    have p2: "project st2 = project_id self"
      using sm_call_frame [OF created(1)] sm_call_frame [OF created(2)] proj by simp
    have "secrets st1 = secrets st" using sm_call_get_versions [OF created(1) q] .
    with sm_call_create_versions [OF created(2) q1, of i]
      sm_call_add_versions [OF created(3) [unfolded ra] p2 q2]
      sm_call_quiet [OF created(3) q2]
    show ?thesis by simp
  qed
qed

lemma callback_success_stored:
  assumes "callback lib cfg w code state st = (success_page dn uid, st', t)"
  shows "\<exists>payload. create_or_update_secret lib (sm cfg)
           (SPOTIFY_SECRET_PREFIX cfg @ py_str lib uid) payload st = (Inr (), st')"
  using assms
  by (auto simp: callback_def Let_def error_page_def
      split: option.splits if_splits http_result.splits json.splits prod.splits sum.splits)

lemma list_spotify_secrets_names:
  assumes "list_spotify_secrets self prefix st = (Inr names, st')"
    and "project_id self = project st"
    and "wf_secrets (secrets st)"
  shows "names = filter (\<lambda>n. startswith n prefix) (map fst (secrets st'))"
    and "wf_secrets (secrets st')"
    and "set (map fst (secrets st)) \<subseteq> set (map fst (secrets st'))"
proof -
  from assms(1) obtain r where
    c: "sm_call (ListSecrets (project_path (project_id self))) st = (Inr r, st')"
    by (auto simp: list_spotify_secrets_def project_path_def Let_def
        split: prod.splits sum.splits sm_response.splits)
  show wf': "wf_secrets (secrets st')" using sm_call_wf [OF c assms(3)] .
  show "set (map fst (secrets st)) \<subseteq> set (map fst (secrets st'))" using sm_call_ids [OF c] .
  have served: "\<forall>e rest. schedule st \<noteq> Fails e # rest"
    using c by (auto simp: sm_call_fails)
  from c have "r = RSecrets (map (\<lambda>(i, vs). secret_path (project st) i) (secrets st'))"
    using assms(2) by (auto simp: sm_call_served [OF served])
  with assms(1) c have
    "names = filter (\<lambda>n. startswith n prefix)
       (map (\<lambda>n. last (split_chr CHR ''/'' n))
          (map (\<lambda>(i, vs). secret_path (project st) i) (secrets st')))"
    by (auto simp: list_spotify_secrets_def project_path_def Let_def)
  moreover have "list_all valid_id (map fst (secrets st'))"
    using wf' by (simp add: wf_secrets_def)
  ultimately show "names = filter (\<lambda>n. startswith n prefix) (map fst (secrets st'))"
    by (simp only: last_segments_of_paths)
qed

lemma count_list_distinct: "distinct xs \<Longrightarrow> x \<in> set xs \<Longrightarrow> count_list xs x = 1"
  by (induction xs) auto

lemma count_list_filter: "count_list (filter P xs) x = (if P x then count_list xs x else 0)"
  by (induction xs) auto

lemma startswith_append: "startswith (p @ s) p"
  by (simp add: startswith_def)

lemma one_secret_of_id:
  "distinct (map fst ss) \<Longrightarrow> i \<in> set (map fst ss) \<Longrightarrow>
   length (filter (\<lambda>(j, vs). j = i) ss) = 1"
  by (induction ss) (force simp: filter_empty_conv)+


text \<open>
  C3: two successful callbacks for the same user id, the second on the store the first
  left, in a store of the configured project whose secret ids are distinct and well
  formed (every store reached from the empty one is). Both end with the
  \<open>AddSecretVersion\<close> of their payload to the one secret name prefix + id; the store
  then holds exactly one secret of that name, and a listing by the prefix that returns
  gives the name exactly once. When no other client writes in between, the versions of that secret are
  those it had before followed by the two payloads.
\<close>

theorem callback_twice_one_secret:
  assumes wf: "wf_secrets (secrets st0)"
    and proj: "project st0 = GCP_PROJECT cfg"
    and first: "callback lib cfg w1 code1 state1 st0 = (success_page dn1 uid, st1, t1)"
    and second: "callback lib cfg w2 code2 state2 st1 = (success_page dn2 uid, st2, t2)"
    and listed: "list_spotify_secrets (sm cfg) (SPOTIFY_SECRET_PREFIX cfg) st2 = (Inr names, st3)"
  shows "\<exists>p1 p2.
           last (requests st1) =
             AddSecretVersion (secret_path (GCP_PROJECT cfg) (user_secret lib cfg uid)) p1
         \<and> last (requests st2) =
             AddSecretVersion (secret_path (GCP_PROJECT cfg) (user_secret lib cfg uid)) p2
         \<and> (quiet st0 \<longrightarrow>
              versions_of (secrets st2) (user_secret lib cfg uid) =
                versions_of (secrets st0) (user_secret lib cfg uid) @ [p1, p2])
         \<and> length (filter (\<lambda>(j, vs). j = user_secret lib cfg uid) (secrets st2)) = 1
         \<and> count_list names (user_secret lib cfg uid) = 1"
proof -
  let ?n = "user_secret lib cfg uid"
  from callback_success_stored [OF first] obtain payload1 where
    s1: "create_or_update_secret lib (sm cfg) ?n payload1 st0 = (Inr (), st1)" by blast
  from callback_success_stored [OF second] obtain payload2 where
    s2: "create_or_update_secret lib (sm cfg) ?n payload2 st1 = (Inr (), st2)" by blast
  have p0: "project_id (sm cfg) = project st0" using proj by (simp add: sm_def)
  note a = create_or_update_secret_success [OF s1 p0]
  have p1: "project_id (sm cfg) = project st1" using a(1) p0 by simp
  note b = create_or_update_secret_success [OF s2 p1]
  have p2: "project_id (sm cfg) = project st2" using b(1) p1 by simp
  have wf2: "wf_secrets (secrets st2)" using b(2) [OF a(2) [OF wf]] .
  note l = list_spotify_secrets_names [OF listed p2 wf2]
  have "?n \<in> set (map fst (secrets st3))" using b(4) l(3) by blast
  moreover have "distinct (map fst (secrets st3))" using l(2) by (simp add: wf_secrets_def)
  ultimately have count: "count_list names ?n = 1"
    unfolding l(1) by (simp add: count_list_filter startswith_append count_list_distinct)
  have one: "length (filter (\<lambda>(j, vs). j = ?n) (secrets st2)) = 1"
    using wf2 b(4) by (simp add: wf_secrets_def one_secret_of_id)
  have versions: "quiet st0 \<longrightarrow>
      versions_of (secrets st2) ?n =
        versions_of (secrets st0) ?n @ [encode_utf8 lib payload1, encode_utf8 lib payload2]"
  proof
    assume q: "quiet st0"
    from a(6) [OF q] b(6) show "versions_of (secrets st2) ?n =
        versions_of (secrets st0) ?n @ [encode_utf8 lib payload1, encode_utf8 lib payload2]"
      by simp
  qed
  from a(5) b(5) versions one count show ?thesis
    by (auto simp: sm_def)
qed

lemma example_cfg_fields:
  "SPOTIFY_CLIENT_ID example_cfg = ''client-1''"
  "SPOTIFY_CLIENT_SECRET example_cfg = ''s3cret''"
  "REDIRECT_URI example_cfg = ''https://app.example/auth/callback''"
  "GCP_PROJECT example_cfg = ''proj''"
  "SPOTIFY_SECRET_PREFIX example_cfg = ''spotify1-refresh-''"
  by (simp_all add: example_cfg_def)

lemma example_dumps_record:
  "json_dumps example_lib (JObj
     [(''spotify_user_id'', JStr ''u789''),
      (''display_name'', JStr ''Jane''),
      (''refresh_token'', JStr ''RT1''),
      (''scope'', JStr ''user-read-email''),
      (''created_at'', JStr ''2024-05-01T12:00:00'')]) = example_text"
  by (simp add: example_lib_def example_record_def)

lemma example_onboarding:
  "callback example_lib example_cfg example_world (Some ''abc123'') None empty_store =
     (success_page (JStr ''Jane'') (JStr ''u789''), stored_store,
      [Post SPOTIFY_TOKEN_URL (token_data example_cfg ''abc123'') (client_auth example_cfg),
       Get SPOTIFY_ME_URL [(''Authorization'', ''Bearer AT1'')]])"
  by (simp add: callback_def Let_def example_world_def example_tokens_def example_profile_def
      dict_get_def dict_get_default_def example_cfg_fields example_dumps_record
      example_store_call)

lemma example_onboarding_again:
  "callback example_lib example_cfg example_world (Some ''abc123'') None stored_store =
     (success_page (JStr ''Jane'') (JStr ''u789''), stored_twice_store,
      [Post SPOTIFY_TOKEN_URL (token_data example_cfg ''abc123'') (client_auth example_cfg),
       Get SPOTIFY_ME_URL [(''Authorization'', ''Bearer AT1'')]])"
  by (simp add: callback_def Let_def example_world_def example_tokens_def example_profile_def
      dict_get_def dict_get_default_def example_cfg_fields example_dumps_record
      example_store_call_again)

lemma example_listing:
  "list_spotify_secrets (sm example_cfg) (SPOTIFY_SECRET_PREFIX example_cfg) stored_twice_store =
     (Inr [''spotify1-refresh-u789''],
      stored_twice_store\<lparr>requests := requests stored_twice_store @ [ListSecrets ''projects/proj'']\<rparr>)"
  by (simp add: list_spotify_secrets_def sm_def example_cfg_def stored_twice_store_def
      sm_call_def Let_def secret_path_def project_path_def startswith_def)

theorem callback_twice_one_secret_witness:
  "wf_secrets (secrets empty_store) \<and> quiet empty_store
   \<and> project empty_store = GCP_PROJECT example_cfg
   \<and> fst (callback example_lib example_cfg example_world (Some ''abc123'') None empty_store)
       = success_page (JStr ''Jane'') (JStr ''u789'')
   \<and> callback example_lib example_cfg example_world (Some ''abc123'') None stored_store
       = (success_page (JStr ''Jane'') (JStr ''u789''), stored_twice_store,
          [Post SPOTIFY_TOKEN_URL (token_data example_cfg ''abc123'') (client_auth example_cfg),
           Get SPOTIFY_ME_URL [(''Authorization'', ''Bearer AT1'')]])
   \<and> fst (list_spotify_secrets (sm example_cfg) ''spotify1-refresh-'' stored_twice_store)
       = Inr [''spotify1-refresh-u789'']
   \<and> versions_of (secrets stored_twice_store) ''spotify1-refresh-u789''
       = [ascii_encode example_text, ascii_encode example_text]
   \<and> length (filter (\<lambda>(j, vs). j = ''spotify1-refresh-u789'') (secrets stored_twice_store)) = 1
   \<and> count_list [''spotify1-refresh-u789''] ''spotify1-refresh-u789'' = 1"
proof -
  have wf: "wf_secrets (secrets empty_store)"
    by (simp add: wf_secrets_def empty_store_def)
  have q: "quiet empty_store" by (simp add: quiet_def empty_store_def)
  have proj: "project empty_store = GCP_PROJECT example_cfg"
    by (simp add: empty_store_def example_cfg_def)
  have v0: "versions_of (secrets empty_store) ''spotify1-refresh-u789'' = []"
    by (simp add: versions_of_def empty_store_def)
  from callback_twice_one_secret
    [OF wf proj example_onboarding example_onboarding_again example_listing]
  obtain p1 p2 where
    r: "last (requests stored_store) =
          AddSecretVersion (secret_path (GCP_PROJECT example_cfg)
            (user_secret example_lib example_cfg (JStr ''u789''))) p1"
       "last (requests stored_twice_store) =
          AddSecretVersion (secret_path (GCP_PROJECT example_cfg)
            (user_secret example_lib example_cfg (JStr ''u789''))) p2"
       "quiet empty_store \<longrightarrow>
          versions_of (secrets stored_twice_store)
            (user_secret example_lib example_cfg (JStr ''u789'')) =
          versions_of (secrets empty_store)
            (user_secret example_lib example_cfg (JStr ''u789'')) @ [p1, p2]"
       "length (filter (\<lambda>(j, vs). j = user_secret example_lib example_cfg (JStr ''u789''))
          (secrets stored_twice_store)) = 1"
       "count_list [''spotify1-refresh-u789'']
          (user_secret example_lib example_cfg (JStr ''u789'')) = 1"
    by blast
  have p1: "p1 = ascii_encode example_text"
    using r(1) by (simp add: stored_store_def)
  have p2: "p2 = ascii_encode example_text"
    using r(2) by (simp add: stored_twice_store_def)
  from r(3) q v0 p1 p2 have
    "versions_of (secrets stored_twice_store) ''spotify1-refresh-u789''
       = [ascii_encode example_text, ascii_encode example_text]"
    by (simp add: example_cfg_fields)
  moreover have "fst (list_spotify_secrets (sm example_cfg) ''spotify1-refresh-''
      stored_twice_store) = Inr [''spotify1-refresh-u789'']"
    using example_listing by (simp add: example_cfg_fields)
  ultimately show ?thesis
    using wf q proj r(4,5)
    by (simp add: example_onboarding example_onboarding_again example_cfg_fields)
qed

section \<open>The adapter: a creation that meets an existing secret\<close>

text \<open>
  Whenever the lookup fails and the creation fails, whatever the store, the schedule and
  the cause, the failure of the creation leaves \<open>create_or_update_secret\<close>: the result
  is that error, the store is the one the creation left, and the client has sent the
  lookup and the creation only.
\<close>

lemma creation_failure_is_raised:
  assumes "sm_call (GetSecret (secret_path (project_id self) i)) st = (Inl e, st1)"
    and "sm_call (CreateSecret (project_path (project_id self)) i) st1 = (Inl e', st2)"
  shows "create_or_update_secret lib self i payload st = (Inl (ApiError e'), st2)"
    and "requests st2 = requests st @
           [GetSecret (secret_path (project_id self) i),
            CreateSecret (project_path (project_id self)) i]"
proof -
  show "create_or_update_secret lib self i payload st = (Inl (ApiError e'), st2)"
    by (simp add: create_or_update_secret_unfold assms)
  from sm_call_frame [OF assms(1)] sm_call_frame [OF assms(2)]
  show "requests st2 = requests st @
           [GetSecret (secret_path (project_id self) i),
            CreateSecret (project_path (project_id self)) i]"
    by simp
qed

text \<open>
  C2 fails on the code. The lookup of user \<open>u789\<close> finds nothing, another onboarding
  creates the secret, and the creation of this one fails because the secret already
  exists. Nothing catches that failure (lines 15 to 22): it leaves
  \<open>create_or_update_secret\<close> before \<^verbatim>\<open>add_secret_version\<close>, the secret is left
  without a version, and the callback that lost the race answers with the storage-failure
  page although its exchange and its profile request succeeded.
\<close>

theorem create_or_update_secret_already_exists_raised:
  "create_or_update_secret example_lib (sm example_cfg) ''spotify1-refresh-u789'' example_text
     race_store = (Inl (ApiError AlreadyExists), raced_store)
   \<and> callback example_lib example_cfg example_world (Some ''abc123'') None race_store =
       (error_page ''Failed to store credentials.'', raced_store,
        [Post SPOTIFY_TOKEN_URL (token_data example_cfg ''abc123'') (client_auth example_cfg),
         Get SPOTIFY_ME_URL [(''Authorization'', ''Bearer AT1'')]])"
proof -
  have adapter: "create_or_update_secret example_lib (sm example_cfg) ''spotify1-refresh-u789''
      example_text race_store = (Inl (ApiError AlreadyExists), raced_store)"
    by (simp add: create_or_update_secret_def sm_def example_cfg_def race_store_def
        raced_store_def sm_call_def Let_def find_secret_def secret_path_def project_path_def
        valid_id_def)
  then show ?thesis
    by (simp add: callback_def Let_def example_world_def example_tokens_def
        example_profile_def dict_get_def dict_get_default_def example_cfg_fields
        example_dumps_record)
qed

theorem create_or_update_secret_already_exists_raised_witness:
  "fst (create_or_update_secret example_lib (sm example_cfg) ''spotify1-refresh-u789''
          example_text race_store) \<noteq> Inr ()
   \<and> versions_of (secrets (snd (create_or_update_secret example_lib (sm example_cfg)
          ''spotify1-refresh-u789'' example_text race_store))) ''spotify1-refresh-u789'' = []
   \<and> AddSecretVersion ''projects/proj/secrets/spotify1-refresh-u789'' (ascii_encode example_text)
       \<notin> set (requests (snd (create_or_update_secret example_lib (sm example_cfg)
          ''spotify1-refresh-u789'' example_text race_store)))
   \<and> fst (callback example_lib example_cfg example_world (Some ''abc123'') None race_store)
       = error_page ''Failed to store credentials.''"
  using create_or_update_secret_already_exists_raised
  by (simp add: raced_store_def versions_of_def)

end
